theory Spec2Isabelle
  imports Complex_Main "HOL-Library.AList"
begin

section \<open>Python values used by src/agent/main.py\<close>

text \<open>
  Number model. Python's \<open>int\<close> is unbounded and is modelled by \<open>int\<close>. The source
  also computes with floats (\<open>/\<close>, \<open>* 0.5\<close>, \<open>* 0.15\<close>, \<open>* 0.2\<close>, \<open>* 0.3\<close>); they are
  modelled by exact rationals (\<open>rat\<close>). Every float of the source is compared with an
  integer threshold or truncated by \<open>int(...)\<close>, and on the magnitudes a profile can hold
  the IEEE double result and the rational agree on those comparisons and truncations.

  String model. A Python \<open>str\<close> is a list of code points; \<open>char\<close> holds the code points
  below 256, and the character classes below are Python's on that range.
\<close>

text \<open>
  Exceptions. Inside the timestamp \<open>try\<close> blocks the source can raise \<open>KeyError\<close> (a
  subscripted key is absent) and \<open>ValueError\<close> (the parser rejects the string); a bare
  \<open>except\<close> catches both. An exception that reaches the service is \<open>Exception msg\<close>,
  where \<open>msg\<close> is its \<open>str(e)\<close>.
\<close>

datatype parse_error = KeyError | ValueError

datatype py_exception = Exception string

fun str_of_exception :: "py_exception \<Rightarrow> string" where
  "str_of_exception (Exception msg) = msg"

text \<open>\<open>int(x)\<close> on a float: truncation toward zero.\<close>

definition py_int :: "rat \<Rightarrow> int" where
  "py_int x = (if x < 0 then \<lceil>x\<rceil> else \<lfloor>x\<rfloor>)"

text \<open>\<open>sub in s\<close> on strings.\<close>

fun startswith :: "string \<Rightarrow> string \<Rightarrow> bool" where
  "startswith s [] = True"
| "startswith [] (p # ps) = False"
| "startswith (c # cs) (p # ps) = (c = p \<and> startswith cs ps)"

fun str_in :: "string \<Rightarrow> string \<Rightarrow> bool" where
  "str_in sub [] = (sub = [])"
| "str_in sub (c # cs) = (startswith (c # cs) sub \<or> str_in sub cs)"

text \<open>\<open>s.lower()\<close>: the code points below 256 that Python maps are A-Z and the
  Latin-1 capitals 192-222 without 215, each moved up by 32.\<close>

definition lower_char :: "char \<Rightarrow> char" where
  "lower_char c =
     (let n = (of_char c :: nat)
      in if (65 \<le> n \<and> n \<le> 90) \<or> (192 \<le> n \<and> n \<le> 222 \<and> n \<noteq> 215)
         then char_of (n + 32) else c)"

definition lower :: "string \<Rightarrow> string" where
  "lower s = map lower_char s"

text \<open>\<open>c.isspace()\<close> and \<open>c.isalnum()\<close> for one code point below 256.\<close>

definition isspace_char :: "char \<Rightarrow> bool" where
  "isspace_char c =
     (let n = (of_char c :: nat)
      in (9 \<le> n \<and> n \<le> 13) \<or> (28 \<le> n \<and> n \<le> 32) \<or> n = 133 \<or> n = 160)"

definition isalnum_char :: "char \<Rightarrow> bool" where
  "isalnum_char c =
     (let n = (of_char c :: nat)
      in (48 \<le> n \<and> n \<le> 57) \<or> (65 \<le> n \<and> n \<le> 90) \<or> (97 \<le> n \<and> n \<le> 122)
         \<or> n = 170 \<or> n = 178 \<or> n = 179 \<or> n = 181 \<or> n = 185 \<or> n = 186
         \<or> (188 \<le> n \<and> n \<le> 190) \<or> (192 \<le> n \<and> n \<le> 214)
         \<or> (216 \<le> n \<and> n \<le> 246) \<or> (248 \<le> n \<and> n \<le> 255))"

text \<open>\<open>s.isalnum()\<close>: every character alphanumeric and at least one character.\<close>

definition isalnum :: "string \<Rightarrow> bool" where
  "isalnum s = (s \<noteq> [] \<and> list_all isalnum_char s)"

text \<open>\<open>s.strip()\<close>.\<close>

definition strip :: "string \<Rightarrow> string" where
  "strip s = rev (dropWhile isspace_char (rev (dropWhile isspace_char s)))"

text \<open>\<open>s.replace(c, '')\<close> for a one-character \<open>c\<close>.\<close>

definition remove_char :: "char \<Rightarrow> string \<Rightarrow> string" where
  "remove_char c s = filter (\<lambda>x. x \<noteq> c) s"

text \<open>\<open>s.replace('Z', '+00:00')\<close>.\<close>

definition replace_Z :: "string \<Rightarrow> string" where
  "replace_Z s = concat (map (\<lambda>c. if c = CHR ''Z'' then ''+00:00'' else [c]) s)"

text \<open>\<open>str(n)\<close> for a non-negative integer, and for any integer.\<close>

function str_nat :: "nat \<Rightarrow> string" where
  "str_nat n = (if n < 10 then [char_of (48 + n)]
                else str_nat (n div 10) @ [char_of (48 + n mod 10)])"
  by pat_completeness auto
termination
  by (relation "measure (\<lambda>n. n)") auto

definition str_int :: "int \<Rightarrow> string" where
  "str_int i = (if i < 0 then CHR ''-'' # str_nat (nat (- i)) else str_nat (nat i))"

subsection \<open>Dictionaries with insertion order\<close>

text \<open>
  A Python \<open>dict\<close> iterates in insertion order, and assigning to a present key keeps its
  position: an association list updated by \<open>AList.update\<close>.
\<close>

definition dict_get :: "('k \<times> 'v) list \<Rightarrow> 'k \<Rightarrow> 'v \<Rightarrow> 'v" where
  "dict_get d k dflt = (case map_of d k of None \<Rightarrow> dflt | Some v \<Rightarrow> v)"

text \<open>\<open>d[k] = d.get(k, 0) + w\<close>.\<close>

definition dict_add :: "'k \<Rightarrow> int \<Rightarrow> ('k \<times> int) list \<Rightarrow> ('k \<times> int) list" where
  "dict_add k w d = AList.update k (dict_get d k 0 + w) d"

text \<open>\<open>sorted(d.items(), key=lambda x: x[1], reverse=True)\<close>: Python's sort is stable and
  stays stable under \<open>reverse=True\<close>, so items of equal value keep their dictionary order.\<close>

definition sorted_by_value_desc :: "('k \<times> int) list \<Rightarrow> ('k \<times> int) list" where
  "sorted_by_value_desc items = sort_key (\<lambda>item. - snd item) items"

text \<open>\<open>list(dict.fromkeys(xs))\<close>: the first occurrence of each element, in order.\<close>

fun fromkeys_acc :: "'a list \<Rightarrow> 'a list \<Rightarrow> 'a list" where
  "fromkeys_acc seen [] = []"
| "fromkeys_acc seen (x # xs) =
     (if x \<in> set seen then fromkeys_acc seen xs else x # fromkeys_acc (x # seen) xs)"

definition dict_fromkeys :: "'a list \<Rightarrow> 'a list" where
  "dict_fromkeys xs = fromkeys_acc [] xs"

text \<open>\<open>Counter(xs)\<close> counts in first-seen order; \<open>most_common(n)\<close> is documented as
  \<open>sorted(items, key=count, reverse=True)[:n]\<close>, so ties keep first-seen order.\<close>

definition Counter :: "'a list \<Rightarrow> ('a \<times> int) list" where
  "Counter xs = fold (\<lambda>x d. dict_add x 1 d) xs []"

definition most_common :: "nat \<Rightarrow> ('a \<times> int) list \<Rightarrow> ('a \<times> int) list" where
  "most_common n c = take n (sorted_by_value_desc c)"

section \<open>Raw records\<close>

text \<open>
  The JSON objects of the platform, as the source reads them. A field read with
  \<open>.get(key, default)\<close> or tested for truth is optional: \<open>None\<close> is an absent key (or
  JSON null where the source treats both alike). A repository always has a name.
\<close>

record user_record =
  u_name :: "string option"
  u_bio :: "string option"
  u_company :: "string option"
  u_location :: "string option"
  u_created_at :: "string option"
  u_public_repos :: "int option"
  u_followers :: "int option"
  u_following :: "int option"

record repository =
  r_name :: string
  r_description :: "string option"
  r_language :: "string option"
  r_stargazers_count :: "int option"
  r_forks_count :: "int option"
  r_size :: "int option"
  r_topics :: "string list option"
  r_updated_at :: "string option"
  r_fork :: "bool option"

record event =
  e_type :: "string option"
  e_created_at :: "string option"

text \<open>\<open>d.get(key, default)\<close> and \<open>d.get(key) or default\<close>.\<close>

definition get_or :: "'a option \<Rightarrow> 'a \<Rightarrow> 'a" where
  "get_or field dflt = (case field of None \<Rightarrow> dflt | Some v \<Rightarrow> v)"

text \<open>Truth value of an optional string: present and not empty.\<close>

definition truthy :: "'a list option \<Rightarrow> bool" where
  "truthy field = (case field of None \<Rightarrow> False | Some v \<Rightarrow> v \<noteq> [])"

subsection \<open>Time\<close>

text \<open>
  \<open>datetime.fromisoformat\<close> belongs to Python's library; it is the parameter \<open>fromisoformat\<close>, which
  gives the wall-clock reading of the parsed timestamp in microseconds, or \<open>None\<close> where
  the library raises \<open>ValueError\<close>. The source compares with
  \<open>datetime.now().replace(tzinfo=t.tzinfo)\<close>: both sides carry the same \<open>tzinfo\<close>, so
  Python compares and subtracts the wall-clock readings; \<open>now\<close> is that reading of the
  clock.
\<close>

type_synonym isoparser = "string \<Rightarrow> int option"

definition timedelta_days :: "int \<Rightarrow> int" where
  "timedelta_days n = n * 86400000000"

text \<open>\<open>datetime.fromisoformat(d[key].replace('Z', '+00:00'))\<close> with \<open>d[key]\<close> subscripted:
  an absent key raises \<open>KeyError\<close>, a malformed string \<open>ValueError\<close>.\<close>

definition parse_field :: "isoparser \<Rightarrow> string option \<Rightarrow> parse_error + int" where
  "parse_field fromisoformat field =
     (case field of
        None \<Rightarrow> Inl KeyError
      | Some s \<Rightarrow> (case fromisoformat (replace_Z s) of None \<Rightarrow> Inl ValueError | Some t \<Rightarrow> Inr t))"

section \<open>GitHubAnalyzer\<close>

subsection \<open>\<open>_analyze_repositories\<close>\<close>

record repository_analysis =
  total_stars :: int
  total_forks :: int
  avg_complexity :: string
  popular_topics :: "string list"
  frameworks_used :: "string list"
  project_types :: "string list"
  recent_activity :: bool

text \<open>
  \<open>list(set(xs))\<close> lists the distinct elements of \<open>xs\<close> in the iteration order of a
  Python set. For strings that order follows their hashes, which CPython seeds anew in
  every process, so the source does not fix it: it is the parameter \<open>list_set\<close>, which
  maps the elements put into the set to the list that comes out.
\<close>

type_synonym set_order = "string list \<Rightarrow> string list"

text \<open>The loop variables: the running \<open>analysis\<close> entries and the three local lists.\<close>

record repo_loop =
  l_total_stars :: int
  l_total_forks :: int
  l_recent_activity :: bool
  l_all_topics :: "string list"
  l_frameworks :: "string list"
  l_project_types :: "string list"

text \<open>\<open>any(fw in repo_name or fw in repo_desc for fw in kws)\<close>.\<close>

definition any_in :: "string list \<Rightarrow> string \<Rightarrow> string \<Rightarrow> bool" where
  "any_in kws repo_name repo_desc = list_ex (\<lambda>fw. str_in fw repo_name \<or> str_in fw repo_desc) kws"

text \<open>The body of the \<open>try\<close> around the recent-activity test: the parse may raise, and
  otherwise the body says whether the flag is to be set.\<close>

definition updated_try :: "isoparser \<Rightarrow> int \<Rightarrow> repository \<Rightarrow> parse_error + bool" where
  "updated_try fromisoformat now repo =
     (case parse_field fromisoformat (r_updated_at repo) of
        Inl e \<Rightarrow> Inl e
      | Inr updated \<Rightarrow> Inr (updated > now - timedelta_days 180))"

definition repo_step :: "isoparser \<Rightarrow> int \<Rightarrow> repository \<Rightarrow> repo_loop \<Rightarrow> repo_loop" where
  "repo_step fromisoformat now repo st =
     (let st1 = st\<lparr>l_total_stars := l_total_stars st + get_or (r_stargazers_count repo) 0,
                   l_total_forks := l_total_forks st + get_or (r_forks_count repo) 0\<rparr>;
          st2 = (if truthy (r_topics repo)
                 then st1\<lparr>l_all_topics := l_all_topics st1 @ get_or (r_topics repo) []\<rparr>
                 else st1);
          repo_name = lower (r_name repo);
          repo_desc = lower (get_or (r_description repo) []);
          st3 = (if any_in [''react'', ''vue'', ''angular''] repo_name repo_desc
                 then st2\<lparr>l_frameworks := l_frameworks st2 @ [''Frontend Framework'']\<rparr>
                 else st2);
          st4 = (if any_in [''django'', ''flask'', ''fastapi'', ''express''] repo_name repo_desc
                 then st3\<lparr>l_frameworks := l_frameworks st3 @ [''Backend Framework'']\<rparr>
                 else st3);
          st5 = (if any_in [''ml'', ''ai'', ''neural'', ''tensorflow'', ''pytorch''] repo_name repo_desc
                 then st4\<lparr>l_project_types := l_project_types st4 @ [''AI/ML'']\<rparr>
                 else st4);
          st6 = (if any_in [''api'', ''rest'', ''graphql''] repo_name repo_desc
                 then st5\<lparr>l_project_types := l_project_types st5 @ [''API Development'']\<rparr>
                 else st5);
          st7 = (if any_in [''mobile'', ''android'', ''ios'', ''flutter''] repo_name repo_desc
                 then st6\<lparr>l_project_types := l_project_types st6 @ [''Mobile Development'']\<rparr>
                 else st6)
      in if truthy (r_updated_at repo)
         then (case updated_try fromisoformat now repo of
                 Inl e \<Rightarrow> st7
               | Inr recent \<Rightarrow> (if recent then st7\<lparr>l_recent_activity := True\<rparr> else st7))
         else st7)"

definition repo_loop_init :: repo_loop where
  "repo_loop_init =
     \<lparr>l_total_stars = 0, l_total_forks = 0, l_recent_activity = False,
      l_all_topics = [], l_frameworks = [], l_project_types = []\<rparr>"

definition analyze_repositories ::
    "set_order \<Rightarrow> isoparser \<Rightarrow> int \<Rightarrow> repository list \<Rightarrow> repository_analysis" where
  "analyze_repositories list_set fromisoformat now repos_data =
     (let st = fold (repo_step fromisoformat now) repos_data repo_loop_init;
          avg_stars = (of_int (l_total_stars st) :: rat)
                      / of_int (max (int (length repos_data)) 1)
      in \<lparr>total_stars = l_total_stars st,
          total_forks = l_total_forks st,
          avg_complexity =
            (if avg_stars > 50 \<or> l_total_forks st > 20 then ''advanced''
             else if avg_stars < 5 \<and> l_total_forks st < 3 then ''beginner''
             else ''intermediate''),
          popular_topics = map fst (most_common 5 (Counter (l_all_topics st))),
          frameworks_used = list_set (l_frameworks st),
          project_types = list_set (l_project_types st),
          recent_activity = l_recent_activity st\<rparr>)"

subsection \<open>\<open>_analyze_activity_patterns\<close>\<close>

record activity_analysis =
  recent_activity_score :: int
  activity_type :: string
  preferred_days :: "string list"
  commit_frequency :: string
  collaboration_level :: string

record event_counts =
  recent_events :: int
  push_events :: int
  pr_events :: int

text \<open>
  The body of the \<open>try\<close> inside the event loop. It returns the exception it raised, if
  any, and the counters as they stand at that point: \<open>event['type']\<close> is subscripted after
  \<open>recent_events\<close> has been incremented.
\<close>

definition event_try ::
    "isoparser \<Rightarrow> int \<Rightarrow> event \<Rightarrow> event_counts \<Rightarrow> parse_error option \<times> event_counts" where
  "event_try fromisoformat now ev c =
     (case parse_field fromisoformat (e_created_at ev) of
        Inl e \<Rightarrow> (Some e, c)
      | Inr event_date \<Rightarrow>
          (if event_date > now - timedelta_days 30
           then (let c1 = c\<lparr>recent_events := recent_events c + 1\<rparr>
                 in case e_type ev of
                      None \<Rightarrow> (Some KeyError, c1)
                    | Some t \<Rightarrow>
                        (if t = ''PushEvent''
                         then (None, c1\<lparr>push_events := push_events c1 + 1\<rparr>)
                         else if t \<in> set [''PullRequestEvent'', ''IssuesEvent'']
                         then (None, c1\<lparr>pr_events := pr_events c1 + 1\<rparr>)
                         else (None, c1)))
           else (None, c)))"

text \<open>\<open>except: continue\<close> drops the exception and goes on with the counters.\<close>

definition event_step :: "isoparser \<Rightarrow> int \<Rightarrow> event \<Rightarrow> event_counts \<Rightarrow> event_counts" where
  "event_step fromisoformat now ev c = snd (event_try fromisoformat now ev c)"

definition count_events :: "isoparser \<Rightarrow> int \<Rightarrow> event list \<Rightarrow> event_counts" where
  "count_events fromisoformat now events_data =
     fold (event_step fromisoformat now) events_data
       \<lparr>recent_events = 0, push_events = 0, pr_events = 0\<rparr>"

definition analyze_activity_patterns ::
    "isoparser \<Rightarrow> int \<Rightarrow> event list \<Rightarrow> repository list \<Rightarrow> activity_analysis" where
  "analyze_activity_patterns fromisoformat now events_data repos_data =
     (let analysis = \<lparr>recent_activity_score = 0, activity_type = ''moderate'',
                       preferred_days = [], commit_frequency = ''weekly'',
                       collaboration_level = ''individual''\<rparr>
      in if events_data = [] then analysis
         else
           (let c = count_events fromisoformat now events_data
            in analysis\<lparr>
                 recent_activity_score := min (recent_events c * 3) 100,
                 activity_type :=
                   (if recent_events c > 20 then ''very_active''
                    else if recent_events c > 10 then ''active''
                    else if recent_events c > 3 then ''moderate''
                    else ''low''),
                 collaboration_level :=
                   (if (of_int (pr_events c) :: rat) > of_int (push_events c) * (3 / 10)
                    then ''collaborative''
                    else if pr_events c > 0 then ''mixed''
                    else ''individual'')\<rparr>))"

subsection \<open>\<open>_calculate_expertise_level\<close>\<close>

text \<open>The \<open>try\<close> body of the account-age factor: \<open>.days\<close> of a \<open>timedelta\<close> is the floor of
  the difference in days.\<close>

definition account_age_try :: "isoparser \<Rightarrow> int \<Rightarrow> user_record \<Rightarrow> parse_error + int" where
  "account_age_try fromisoformat now user_data =
     (case parse_field fromisoformat (u_created_at user_data) of
        Inl e \<Rightarrow> Inl e
      | Inr created \<Rightarrow>
          (let days = (now - created) div timedelta_days 1;
               years = (of_int days :: rat) / 365
           in Inr (min (py_int (years * 10)) 30)))"

definition account_age_factor :: "isoparser \<Rightarrow> int \<Rightarrow> user_record \<Rightarrow> int" where
  "account_age_factor fromisoformat now user_data =
     (case account_age_try fromisoformat now user_data of Inl e \<Rightarrow> 10 | Inr v \<Rightarrow> v)"

definition repo_count_factor :: "user_record \<Rightarrow> int" where
  "repo_count_factor user_data = min (get_or (u_public_repos user_data) 0 * 2) 25"

definition followers_factor :: "user_record \<Rightarrow> rat" where
  "followers_factor user_data = min (of_int (get_or (u_followers user_data) 0) * (1 / 2)) 20"

definition activity_factor :: "activity_analysis \<Rightarrow> rat" where
  "activity_factor activity = of_int (recent_activity_score activity) * (15 / 100)"

definition complexity_factor :: "repository list \<Rightarrow> int" where
  "complexity_factor repos_data =
     (let stars = sum_list (map (\<lambda>repo. get_or (r_stargazers_count repo) 0)
                               (take 10 repos_data))
      in min (py_int (of_int stars * (2 / 10))) 10)"

text \<open>\<open>sum(factors.values())\<close>, in the order of the dictionary.\<close>

definition total_score ::
    "isoparser \<Rightarrow> int \<Rightarrow> user_record \<Rightarrow> repository list \<Rightarrow> activity_analysis \<Rightarrow> rat" where
  "total_score fromisoformat now user_data repos_data activity =
     of_int (account_age_factor fromisoformat now user_data)
     + of_int (repo_count_factor user_data)
     + followers_factor user_data
     + activity_factor activity
     + of_int (complexity_factor repos_data)"

definition calculate_expertise_level ::
    "isoparser \<Rightarrow> int \<Rightarrow> user_record \<Rightarrow> repository list \<Rightarrow> activity_analysis \<Rightarrow> string" where
  "calculate_expertise_level fromisoformat now user_data repos_data activity =
     (let score = total_score fromisoformat now user_data repos_data activity
      in if score > 70 then ''expert''
         else if score > 40 then ''intermediate''
         else if score > 15 then ''beginner''
         else ''newcomer'')"

subsection \<open>\<open>_extract_project_domains\<close>\<close>

text \<open>The \<open>if\<close>/\<open>elif\<close> chain run for each topic of a repository.\<close>

definition topic_domains :: "string \<Rightarrow> string list" where
  "topic_domains topic =
     (let topic_lower = lower topic
      in if topic_lower \<in> set [''machine-learning'', ''artificial-intelligence'', ''deep-learning'']
         then [''Data Science & AI'']
         else if topic_lower \<in> set [''web-development'', ''frontend'', ''backend'']
         then [''Web Development'']
         else if topic_lower \<in> set [''mobile'', ''android'', ''ios'']
         then [''Mobile Development'']
         else [])"

text \<open>What one pass of the loop body appends to \<open>domains\<close>.\<close>

definition repo_domains :: "repository \<Rightarrow> string list" where
  "repo_domains repo =
     (let name = lower (r_name repo);
          desc = lower (get_or (r_description repo) []);
          topics = get_or (r_topics repo) []
      in (if any_in [''web'', ''website'', ''frontend'', ''backend'', ''fullstack''] name desc
          then [''Web Development''] else [])
       @ (if any_in [''data'', ''ml'', ''ai'', ''machine'', ''neural'', ''analysis''] name desc
          then [''Data Science & AI''] else [])
       @ (if any_in [''mobile'', ''android'', ''ios'', ''app'', ''flutter'', ''react-native''] name desc
          then [''Mobile Development''] else [])
       @ (if any_in [''docker'', ''kubernetes'', ''ci'', ''cd'', ''deploy'', ''infrastructure''] name desc
          then [''DevOps & Infrastructure''] else [])
       @ (if any_in [''game'', ''unity'', ''pygame'', ''gaming''] name desc
          then [''Game Development''] else [])
       @ (if any_in [''blockchain'', ''crypto'', ''web3'', ''smart'', ''contract''] name desc
          then [''Blockchain & Web3''] else [])
       @ concat (map topic_domains topics))"

definition extract_project_domains :: "repository list \<Rightarrow> string list" where
  "extract_project_domains repos_data =
     (let domains = fold (\<lambda>repo domains. domains @ repo_domains repo) (take 15 repos_data) []
      in map fst (most_common 5 (Counter domains)))"

subsection \<open>\<open>_analyze_collaboration_style\<close>\<close>

definition is_collab_event :: "event \<Rightarrow> bool" where
  "is_collab_event ev =
     (case e_type ev of
        None \<Rightarrow> False
      | Some t \<Rightarrow> t \<in> set [''PullRequestEvent'', ''IssuesEvent'', ''ForkEvent''])"

definition analyze_collaboration_style :: "repository list \<Rightarrow> event list \<Rightarrow> string" where
  "analyze_collaboration_style repos_data events_data =
     (let forked_repos = int (length (filter (\<lambda>repo. get_or (r_fork repo) False) repos_data));
          original_repos = int (length repos_data) - forked_repos;
          collab_events = int (length (filter is_collab_event events_data))
      in if (of_int forked_repos :: rat) > of_int original_repos * (1 / 2) \<or> collab_events > 5
         then ''collaborative''
         else if forked_repos > 0 \<or> collab_events > 0 then ''mixed''
         else ''independent'')"

subsection \<open>The language statistics of \<open>get_user_profile\<close>\<close>

text \<open>One pass of the loop over \<open>repos_data\<close>: the pair is \<open>(languages, language_bytes)\<close>.\<close>

definition language_step ::
    "repository \<Rightarrow> (string \<times> int) list \<times> (string \<times> int) list
       \<Rightarrow> (string \<times> int) list \<times> (string \<times> int) list" where
  "language_step repo st =
     (case r_language repo of
        None \<Rightarrow> st
      | Some lang \<Rightarrow>
          (if lang = [] then st
           else (let weight = (get_or (r_stargazers_count repo) 0 + 1)
                              * (get_or (r_size repo) 1 + 1)
                 in (dict_add lang 1 (fst st), dict_add lang weight (snd st)))))"

definition all_languages :: "repository list \<Rightarrow> string list" where
  "all_languages repos_data =
     (let st = fold language_step repos_data ([], []);
          top_languages_by_count = take 8 (sorted_by_value_desc (fst st));
          top_languages_by_bytes = take 8 (sorted_by_value_desc (snd st))
      in take 10 (dict_fromkeys (map fst (top_languages_by_bytes @ top_languages_by_count))))"

subsection \<open>\<open>get_user_profile\<close>\<close>

record scored_profile =
  p_username :: string
  p_name :: string
  p_bio :: string
  p_repos :: int
  p_followers :: int
  p_following :: int
  p_languages :: "string list"
  p_company :: string
  p_location :: string
  p_created_at :: string
  p_repository_count :: int
  p_recent_repos :: "string list"
  p_repo_analysis :: repository_analysis
  p_activity_analysis :: activity_analysis
  p_expertise_level :: string
  p_preferred_domains :: "string list"
  p_collaboration_style :: string
  p_recent_activity_score :: int
  p_technology_diversity :: int
  p_project_complexity_preference :: string

text \<open>
  The part of \<open>get_user_profile\<close> that follows the three requests: from the decoded user,
  repositories and events to the returned dictionary.
\<close>

definition analyze ::
    "set_order \<Rightarrow> isoparser \<Rightarrow> int \<Rightarrow> string \<Rightarrow> user_record \<Rightarrow> repository list \<Rightarrow> event list
       \<Rightarrow> scored_profile" where
  "analyze list_set fromisoformat now username user_data repos_data events_data =
     (let repo_analysis = analyze_repositories list_set fromisoformat now (take 20 repos_data);
          activity = analyze_activity_patterns fromisoformat now events_data repos_data;
          langs = all_languages repos_data
      in \<lparr>p_username = username,
          p_name = get_or (u_name user_data) username,
          p_bio = get_or (u_bio user_data) [],
          p_repos = get_or (u_public_repos user_data) 0,
          p_followers = get_or (u_followers user_data) 0,
          p_following = get_or (u_following user_data) 0,
          p_languages = langs,
          p_company = get_or (u_company user_data) [],
          p_location = get_or (u_location user_data) [],
          p_created_at = get_or (u_created_at user_data) [],
          p_repository_count = int (length repos_data),
          p_recent_repos = map r_name (take 5 repos_data),
          p_repo_analysis = repo_analysis,
          p_activity_analysis = activity,
          p_expertise_level =
            calculate_expertise_level fromisoformat now user_data repos_data activity,
          p_preferred_domains = extract_project_domains repos_data,
          p_collaboration_style = analyze_collaboration_style repos_data events_data,
          p_recent_activity_score = recent_activity_score activity,
          p_technology_diversity = int (length langs),
          p_project_complexity_preference = avg_complexity repo_analysis\<rparr>)"

text \<open>
  The three requests are the network: each is a parameter that yields the exception the
  HTTP library raised, or the status with the decoded body.
\<close>

record web =
  get_user :: "string \<Rightarrow> py_exception + int \<times> user_record"
  get_repos :: "string \<Rightarrow> py_exception + int \<times> repository list"
  get_events :: "string \<Rightarrow> py_exception + int \<times> event list"

definition get_user_profile ::
    "set_order \<Rightarrow> isoparser \<Rightarrow> int \<Rightarrow> web \<Rightarrow> string \<Rightarrow> py_exception + scored_profile" where
  "get_user_profile list_set fromisoformat now net username =
     (case get_user net username of
        Inl e \<Rightarrow> Inl e
      | Inr (status, user_data) \<Rightarrow>
          if status = 404
          then Inl (Exception (''GitHub user '' @ [CHR 0x27] @ username @ [CHR 0x27]
                               @ '' not found. Please check the username and try again.''))
          else if status = 403
          then Inl (Exception ''GitHub API rate limit exceeded. Please try again in a few minutes.'')
          else if status \<noteq> 200
          then Inl (Exception (''GitHub API error: Unable to fetch profile (Status: ''
                               @ str_int status @ '')''))
          else
            (case get_repos net username of
               Inl e \<Rightarrow> Inl e
             | Inr (repos_status, repos_body) \<Rightarrow>
                 (case get_events net username of
                    Inl e \<Rightarrow> Inl e
                  | Inr (events_status, events_body) \<Rightarrow>
                      (let repos_data = (if repos_status = 200 then repos_body else []);
                           events_data = (if events_status = 200 then events_body else [])
                       in Inr (analyze list_set fromisoformat now username user_data
                                 repos_data events_data)))))"

section \<open>AgentService\<close>

record analysis_response =
  success :: bool
  agent :: string
  recommendations :: "string option"
  profile :: "scored_profile option"
  error :: "string option"

type_synonym agent_config = "(string \<times> string) list"

text \<open>The texts of the three exceptions the username checks raise.\<close>

definition username_empty_message :: string where
  "username_empty_message = ''Username cannot be empty. Please enter a valid GitHub username.''"

definition username_too_long_message :: string where
  "username_too_long_message =
     ''Username is too long. GitHub usernames must be 39 characters or less.''"

definition username_invalid_message :: string where
  "username_invalid_message =
     ''Invalid username format. GitHub usernames can only contain letters, numbers, hyphens, and underscores.''"

text \<open>The username checks at the head of the \<open>try\<close> block; the result is the stripped
  username.\<close>

definition validate_username :: "string \<Rightarrow> py_exception + string" where
  "validate_username username =
     (if username = [] \<or> strip username = []
      then Inl (Exception username_empty_message)
      else (let stripped = strip username
            in if length stripped > 39
               then Inl (Exception username_too_long_message)
               else if isalnum (remove_char (CHR ''_'') (remove_char (CHR ''-'') stripped))
               then Inr stripped
               else Inl (Exception username_invalid_message)))"

text \<open>
  The body of the \<open>try\<close> block of \<open>analyze_github_profile\<close>. \<open>agents\<close> is the loaded
  configuration, \<open>call_agent\<close> the text generator: an external service, taken as a
  parameter that returns the recommendations or the exception it raised.
\<close>

definition analyze_try ::
    "(string \<Rightarrow> agent_config option) \<Rightarrow> (string \<Rightarrow> py_exception + scored_profile)
       \<Rightarrow> (agent_config \<Rightarrow> scored_profile \<Rightarrow> py_exception + string)
       \<Rightarrow> string \<Rightarrow> string \<Rightarrow> py_exception + string \<times> scored_profile" where
  "analyze_try agents fetch_profile call_agent username agent_name =
     (case validate_username username of
        Inl e \<Rightarrow> Inl e
      | Inr stripped \<Rightarrow>
          (let agent_config = get_or (agents agent_name) []
           in if agent_config = []
              then Inl (Exception (''Agent '' @ agent_name @ '' not found in configuration''))
              else (case fetch_profile stripped of
                      Inl e \<Rightarrow> Inl e
                    | Inr prof \<Rightarrow>
                        (case call_agent agent_config prof of
                           Inl e \<Rightarrow> Inl e
                         | Inr recs \<Rightarrow> Inr (recs, prof)))))"

text \<open>\<open>analyze_github_profile\<close>: the \<open>try\<close> block and its \<open>except Exception\<close> handler.\<close>

definition analyze_github_profile ::
    "(string \<Rightarrow> agent_config option) \<Rightarrow> (string \<Rightarrow> py_exception + scored_profile)
       \<Rightarrow> (agent_config \<Rightarrow> scored_profile \<Rightarrow> py_exception + string)
       \<Rightarrow> string \<Rightarrow> string \<Rightarrow> analysis_response" where
  "analyze_github_profile agents fetch_profile call_agent username agent_name =
     (case analyze_try agents fetch_profile call_agent username agent_name of
        Inr (recs, prof) \<Rightarrow>
          \<lparr>success = True, agent = agent_name, recommendations = Some recs,
           profile = Some prof, error = None\<rparr>
      | Inl e \<Rightarrow>
          \<lparr>success = False, agent = agent_name, recommendations = None,
           profile = None, error = Some (str_of_exception e)\<rparr>)"

section \<open>The quantities the specification speaks of\<close>

text \<open>Totals and average of a repository sequence (section 4.1 of the specification).\<close>

definition sum_stars :: "repository list \<Rightarrow> int" where
  "sum_stars repos = sum_list (map (\<lambda>repo. get_or (r_stargazers_count repo) 0) repos)"

definition sum_forks :: "repository list \<Rightarrow> int" where
  "sum_forks repos = sum_list (map (\<lambda>repo. get_or (r_forks_count repo) 0) repos)"

definition avg_stars :: "repository list \<Rightarrow> rat" where
  "avg_stars repos = of_int (sum_stars repos) / of_int (max (int (length repos)) 1)"

text \<open>A timestamp field parses: it is present and the parser accepts it.\<close>

definition parses :: "isoparser \<Rightarrow> string option \<Rightarrow> bool" where
  "parses fromisoformat field =
     (case parse_field fromisoformat field of Inl e \<Rightarrow> False | Inr t \<Rightarrow> True)"


text \<open>An event whose \<open>created_at\<close> parses to an instant later than 30 days before \<open>now\<close>,
  and the three counts over the events of that window (section 4.2).\<close>

definition in_window :: "isoparser \<Rightarrow> int \<Rightarrow> event \<Rightarrow> bool" where
  "in_window fromisoformat now ev =
     (case parse_field fromisoformat (e_created_at ev) of
        Inl e \<Rightarrow> False
      | Inr t \<Rightarrow> t > now - timedelta_days 30)"

definition recent_event_count :: "isoparser \<Rightarrow> int \<Rightarrow> event list \<Rightarrow> int" where
  "recent_event_count fromisoformat now evs = int (length (filter (in_window fromisoformat now) evs))"

definition window_push_count :: "isoparser \<Rightarrow> int \<Rightarrow> event list \<Rightarrow> int" where
  "window_push_count fromisoformat now evs =
     int (length (filter (\<lambda>ev. in_window fromisoformat now ev \<and> e_type ev = Some ''PushEvent'') evs))"

definition window_pr_count :: "isoparser \<Rightarrow> int \<Rightarrow> event list \<Rightarrow> int" where
  "window_pr_count fromisoformat now evs =
     int (length (filter (\<lambda>ev. in_window fromisoformat now ev
                              \<and> (e_type ev = Some ''PullRequestEvent'' \<or> e_type ev = Some ''IssuesEvent''))
                         evs))"

text \<open>Fork and collaboration-event counts (section 4.4).\<close>

definition forked_count :: "repository list \<Rightarrow> int" where
  "forked_count repos = int (length (filter (\<lambda>repo. r_fork repo = Some True) repos))"

definition original_count :: "repository list \<Rightarrow> int" where
  "original_count repos = int (length repos) - forked_count repos"

definition collab_event_count :: "event list \<Rightarrow> int" where
  "collab_event_count evs =
     int (length (filter (\<lambda>ev. e_type ev = Some ''ForkEvent'' \<or> e_type ev = Some ''PullRequestEvent''
                              \<or> e_type ev = Some ''IssuesEvent'') evs))"

text \<open>The tier of a composite expertise score (section 4.5).\<close>

definition tier_of_score :: "rat \<Rightarrow> string" where
  "tier_of_score score =
     (if score > 70 then ''expert''
      else if score > 40 then ''intermediate''
      else if score > 15 then ''beginner''
      else ''newcomer'')"

text \<open>Whole days between the creation instant and \<open>now\<close>, and the years they make.\<close>

definition days_since :: "int \<Rightarrow> int \<Rightarrow> int" where
  "days_since now created = (now - created) div timedelta_days 1"

definition years_since_creation :: "int \<Rightarrow> int \<Rightarrow> rat" where
  "years_since_creation now created = of_int (days_since now created) / 365"

definition stars_of_first_10 :: "repository list \<Rightarrow> int" where
  "stars_of_first_10 repos = sum_stars (take 10 repos)"

text \<open>
  The composite score in the words of section 4.5: five capped factors, none of them
  rounded, with the account-age factor falling back to 10.
\<close>

definition spec_total_score ::
    "isoparser \<Rightarrow> int \<Rightarrow> user_record \<Rightarrow> repository list \<Rightarrow> activity_analysis \<Rightarrow> rat" where
  "spec_total_score fromisoformat now user_data repos activity =
     (case parse_field fromisoformat (u_created_at user_data) of
        Inl e \<Rightarrow> 10
      | Inr created \<Rightarrow> min (years_since_creation now created * 10) 30)
     + min (of_int (get_or (u_public_repos user_data) 0) * 2) 25
     + min (of_int (get_or (u_followers user_data) 0) * (1 / 2)) 20
     + of_int (recent_activity_score activity) * (15 / 100)
     + min (of_int (stars_of_first_10 repos) * (2 / 10)) 10"

definition spec_expertise_tier ::
    "isoparser \<Rightarrow> int \<Rightarrow> user_record \<Rightarrow> repository list \<Rightarrow> activity_analysis \<Rightarrow> string" where
  "spec_expertise_tier fromisoformat now user_data repos activity =
     tier_of_score (spec_total_score fromisoformat now user_data repos activity)"

text \<open>
  The same score with the two factors the source passes through \<open>int(...)\<close> truncated
  toward zero before they are capped.
\<close>

definition truncated_total_score ::
    "isoparser \<Rightarrow> int \<Rightarrow> user_record \<Rightarrow> repository list \<Rightarrow> activity_analysis \<Rightarrow> rat" where
  "truncated_total_score fromisoformat now user_data repos activity =
     of_int (case parse_field fromisoformat (u_created_at user_data) of
               Inl e \<Rightarrow> 10
             | Inr created \<Rightarrow> min (py_int (years_since_creation now created * 10)) 30)
     + of_int (min (get_or (u_public_repos user_data) 0 * 2) 25)
     + min (of_int (get_or (u_followers user_data) 0) * (1 / 2)) 20
     + of_int (recent_activity_score activity) * (15 / 100)
     + of_int (min (py_int (of_int (stars_of_first_10 repos) * (2 / 10))) 10)"

text \<open>
  The top-language list in the words of section 4.6. Languages are taken in the order
  in which the repository sequence first shows them; each of the two rankings is a
  stable descending sort of that list, by total weight and by repository count.
\<close>

definition has_language :: "repository \<Rightarrow> string \<Rightarrow> bool" where
  "has_language repo lang = (lang \<noteq> [] \<and> r_language repo = Some lang)"

text \<open>The weight \<open>(stars + 1) * (size + 1)\<close> of a repository; where the record has no
  star count or no size the source reads 0 stars and size 1.\<close>

definition repo_weight :: "repository \<Rightarrow> int" where
  "repo_weight repo = (get_or (r_stargazers_count repo) 0 + 1) * (get_or (r_size repo) 1 + 1)"

definition lang_keys :: "repository \<Rightarrow> string list" where
  "lang_keys repo =
     (case r_language repo of None \<Rightarrow> [] | Some lang \<Rightarrow> (if lang = [] then [] else [lang]))"

definition languages_seen :: "repository list \<Rightarrow> string list" where
  "languages_seen repos = dict_fromkeys (concat (map lang_keys repos))"

definition language_weight :: "repository list \<Rightarrow> string \<Rightarrow> int" where
  "language_weight repos lang = sum_list (map repo_weight (filter (\<lambda>repo. has_language repo lang) repos))"

definition language_count :: "repository list \<Rightarrow> string \<Rightarrow> int" where
  "language_count repos lang = int (length (filter (\<lambda>repo. has_language repo lang) repos))"

definition ranked_by_weight :: "repository list \<Rightarrow> string list" where
  "ranked_by_weight repos = sort_key (\<lambda>lang. - language_weight repos lang) (languages_seen repos)"

definition ranked_by_count :: "repository list \<Rightarrow> string list" where
  "ranked_by_count repos = sort_key (\<lambda>lang. - language_count repos lang) (languages_seen repos)"

definition spec_top_languages :: "repository list \<Rightarrow> string list" where
  "spec_top_languages repos =
     take 10 (dict_fromkeys (take 8 (ranked_by_weight repos) @ take 8 (ranked_by_count repos)))"

text \<open>
  One of the two dictionaries of the language loop taken alone: \<open>tally w\<close> adds \<open>w repo\<close>
  under the language of \<open>repo\<close>, and \<open>tally_total\<close> is what a language has received.
\<close>

definition tally ::
    "(repository \<Rightarrow> int) \<Rightarrow> repository \<Rightarrow> (string \<times> int) list \<Rightarrow> (string \<times> int) list" where
  "tally w repo d =
     (case r_language repo of
        None \<Rightarrow> d
      | Some lang \<Rightarrow> (if lang = [] then d else dict_add lang (w repo) d))"

definition tally_total :: "(repository \<Rightarrow> int) \<Rightarrow> repository list \<Rightarrow> string \<Rightarrow> int" where
  "tally_total w repos lang = sum_list (map w (filter (\<lambda>repo. has_language repo lang) repos))"

text \<open>The characters a username may hold: letters, digits, hyphens and underscores.\<close>

definition username_char_ok :: "char \<Rightarrow> bool" where
  "username_char_ok c = (isalnum_char c \<or> c = CHR ''-'' \<or> c = CHR ''_'')"

text \<open>The response of the \<open>except\<close> handler for an exception of text \<open>msg\<close>.\<close>

definition failure_response :: "string \<Rightarrow> string \<Rightarrow> analysis_response" where
  "failure_response agent_name msg =
     \<lparr>success = False, agent = agent_name, recommendations = None,
      profile = None, error = Some msg\<rparr>"

text \<open>
  An iteration order enumerates the set it is given: the list that comes out holds the
  elements that went in, each once. Every order a Python set can show does.
\<close>

definition enumerates :: "set_order \<Rightarrow> bool" where
  "enumerates list_set = (\<forall>xs. set (list_set xs) = set xs \<and> distinct (list_set xs))"

text \<open>A profile with the two lists that come from \<open>list(set(...))\<close> left out.\<close>

definition without_set_lists :: "scored_profile \<Rightarrow> scored_profile" where
  "without_set_lists prof =
     prof\<lparr>p_repo_analysis := (p_repo_analysis prof)\<lparr>frameworks_used := [], project_types := []\<rparr>\<rparr>"

section \<open>Sample inputs\<close>

text \<open>
  A clock reading for 2026-11-04T00:00:00 in microseconds since 1970, and a parser that
  knows four timestamps: three days, 34 days, 672 days and 1826 days (five years) before
  it. Every other string is malformed.
\<close>

definition sample_now :: int where
  "sample_now = 1793750400000000"

definition sample_parser :: isoparser where
  "sample_parser s =
     (if s = ''2026-11-01T00:00:00+00:00'' then Some 1793491200000000
      else if s = ''2026-10-01T00:00:00+00:00'' then Some 1790812800000000
      else if s = ''2025-01-01T00:00:00+00:00'' then Some 1735689600000000
      else if s = ''2021-11-04T00:00:00+00:00'' then Some 1635984000000000
      else None)"

definition sample_user :: "string option \<Rightarrow> int \<Rightarrow> int \<Rightarrow> user_record" where
  "sample_user created public_repos followers =
     \<lparr>u_name = Some ''The Octocat'', u_bio = None, u_company = Some ''GitHub'',
      u_location = None, u_created_at = created, u_public_repos = Some public_repos,
      u_followers = Some followers, u_following = Some 9\<rparr>"

definition sample_repo :: "string \<Rightarrow> string option \<Rightarrow> int \<Rightarrow> int \<Rightarrow> bool \<Rightarrow> string \<Rightarrow> repository" where
  "sample_repo name lang stars forks forked updated =
     \<lparr>r_name = name, r_description = None, r_language = lang,
      r_stargazers_count = Some stars, r_forks_count = Some forks, r_size = Some 10,
      r_topics = Some [''cli''], r_updated_at = Some updated, r_fork = Some forked\<rparr>"

definition sample_event :: "string \<Rightarrow> string \<Rightarrow> event" where
  "sample_event t created = \<lparr>e_type = Some t, e_created_at = Some created\<rparr>"

definition sample_activity :: "int \<Rightarrow> activity_analysis" where
  "sample_activity score =
     \<lparr>recent_activity_score = score, activity_type = ''moderate'', preferred_days = [],
      commit_frequency = ''weekly'', collaboration_level = ''individual''\<rparr>"

text \<open>A network that answers every request with status 200, and a configuration with
  the one agent of the default configuration.\<close>

definition sample_web :: "user_record \<Rightarrow> repository list \<Rightarrow> event list \<Rightarrow> web" where
  "sample_web user_data repos evs =
     \<lparr>get_user = (\<lambda>username. Inr (200, user_data)),
      get_repos = (\<lambda>username. Inr (200, repos)),
      get_events = (\<lambda>username. Inr (200, evs))\<rparr>"

definition sample_agents :: "string \<Rightarrow> agent_config option" where
  "sample_agents agent_name =
     (if agent_name = ''hackathon_recommender''
      then Some [(''name'', ''Hackathon Project Recommender'')]
      else None)"

definition sample_call_agent :: "agent_config \<Rightarrow> scored_profile \<Rightarrow> py_exception + string" where
  "sample_call_agent config prof = Inr ''Top 5 Hackathon Project Recommendations''"

text \<open>
  Nine languages in eleven repositories: eight with one repository each and falling
  star counts, and \<open>Zig\<close> with two repositories without stars, so that it is last by
  weight and first by count. One repository has no language.
\<close>

definition sample_language_repos :: "repository list" where
  "sample_language_repos =
     [sample_repo ''a'' (Some ''C'') 90 0 False ''2026-11-01T00:00:00Z'',
      sample_repo ''b'' (Some ''Go'') 80 0 False ''2026-11-01T00:00:00Z'',
      sample_repo ''c'' (Some ''Rust'') 70 0 False ''2026-11-01T00:00:00Z'',
      sample_repo ''d'' (Some ''Java'') 60 0 False ''2026-11-01T00:00:00Z'',
      sample_repo ''e'' (Some ''Ruby'') 50 0 False ''2026-11-01T00:00:00Z'',
      sample_repo ''f'' (Some ''Perl'') 40 0 False ''2026-11-01T00:00:00Z'',
      sample_repo ''g'' (Some ''Lua'') 30 0 False ''2026-11-01T00:00:00Z'',
      sample_repo ''h'' (Some ''Nim'') 20 0 False ''2026-11-01T00:00:00Z'',
      sample_repo ''i'' (Some ''Zig'') 0 0 False ''2026-11-01T00:00:00Z'',
      sample_repo ''j'' None 500 0 False ''2026-11-01T00:00:00Z'',
      sample_repo ''k'' (Some ''Zig'') 0 0 False ''2026-11-01T00:00:00Z'']"

text \<open>Two iteration orders of a set of strings: first insertion first, and the reverse.\<close>

definition sample_order :: set_order where
  "sample_order xs = dict_fromkeys xs"

definition sample_reverse_order :: set_order where
  "sample_reverse_order xs = rev (dict_fromkeys xs)"

text \<open>A username of 40 characters: \<open>octocat\<close> followed by 33 spaces.\<close>

definition sample_padded_username :: string where
  "sample_padded_username = ''octocat'' @ replicate 33 (CHR '' '')"

text \<open>A network whose user request answers 404, and a text generator that is not
  configured.\<close>

definition sample_missing_web :: web where
  "sample_missing_web =
     \<lparr>get_user = (\<lambda>username. Inr (404, sample_user None 0 0)),
      get_repos = (\<lambda>username. Inr (200, [])),
      get_events = (\<lambda>username. Inr (200, []))\<rparr>"

definition sample_failing_agent :: "agent_config \<Rightarrow> scored_profile \<Rightarrow> py_exception + string" where
  "sample_failing_agent config prof =
     Inl (Exception ''AI service is not configured. Please check your Gemini API key configuration.'')"

text \<open>A repository whose name shows two frameworks and two project types, and a list
  of 21 repositories of which only the last was updated within 180 days.\<close>

definition sample_labelled_repo :: repository where
  "sample_labelled_repo =
     sample_repo ''react-flask-ml-api'' (Some ''Python'') 3 1 False ''2026-11-01T00:00:00Z''"


section \<open>The repository loop\<close>

text \<open>What one pass of the loop of \<open>_analyze_repositories\<close> does to each loop variable,
  and what the whole loop leaves in them.\<close>

lemma repo_step_stars:
  "l_total_stars (repo_step f now repo st) = l_total_stars st + get_or (r_stargazers_count repo) 0"
  by (simp add: repo_step_def Let_def split: sum.splits)

lemma repo_step_forks:
  "l_total_forks (repo_step f now repo st) = l_total_forks st + get_or (r_forks_count repo) 0"
  by (simp add: repo_step_def Let_def split: sum.splits)


lemma repo_step_topics:
  "l_all_topics (repo_step f now repo st) = l_all_topics st @ get_or (r_topics repo) []"
  by (simp add: repo_step_def Let_def truthy_def get_or_def split: sum.splits option.splits)

lemma fold_repo_step_stars:
  "l_total_stars (fold (repo_step f now) repos st) = l_total_stars st + sum_stars repos"
  by (induction repos arbitrary: st) (simp_all add: sum_stars_def repo_step_stars)

lemma fold_repo_step_forks:
  "l_total_forks (fold (repo_step f now) repos st) = l_total_forks st + sum_forks repos"
  by (induction repos arbitrary: st) (simp_all add: sum_forks_def repo_step_forks)


lemma fold_repo_step_topics:
  "l_all_topics (fold (repo_step f now) repos st) =
     l_all_topics st @ concat (map (\<lambda>repo. get_or (r_topics repo) []) repos)"
  by (induction repos arbitrary: st) (simp_all add: repo_step_topics)

lemma analyze_repositories_total_stars:
  "total_stars (analyze_repositories so f now repos) = sum_stars repos"
  by (simp add: analyze_repositories_def Let_def fold_repo_step_stars repo_loop_init_def)

lemma analyze_repositories_total_forks:
  "total_forks (analyze_repositories so f now repos) = sum_forks repos"
  by (simp add: analyze_repositories_def Let_def fold_repo_step_forks repo_loop_init_def)

lemma analyze_repositories_complexity:
  "avg_complexity (analyze_repositories so f now repos) =
     (if avg_stars repos > 50 \<or> sum_forks repos > 20 then ''advanced''
      else if avg_stars repos < 5 \<and> sum_forks repos < 3 then ''beginner''
      else ''intermediate'')"
  by (simp add: analyze_repositories_def Let_def fold_repo_step_stars fold_repo_step_forks
        repo_loop_init_def avg_stars_def)


lemma analyze_repositories_topics:
  "popular_topics (analyze_repositories so f now repos) =
     map fst (most_common 5 (Counter (concat (map (\<lambda>repo. get_or (r_topics repo) []) repos))))"
  by (simp add: analyze_repositories_def Let_def fold_repo_step_topics repo_loop_init_def)

section \<open>The event loop and the collaboration counts\<close>

lemma event_step_recent:
  "recent_events (event_step f now ev c) = recent_events c + (if in_window f now ev then 1 else 0)"
  by (simp add: event_step_def event_try_def in_window_def Let_def split: sum.splits option.splits)

lemma event_step_push:
  "push_events (event_step f now ev c) =
     push_events c + (if in_window f now ev \<and> e_type ev = Some ''PushEvent'' then 1 else 0)"
  by (simp add: event_step_def event_try_def in_window_def Let_def split: sum.splits option.splits)

lemma event_step_pr:
  "pr_events (event_step f now ev c) =
     pr_events c + (if in_window f now ev
                       \<and> (e_type ev = Some ''PullRequestEvent'' \<or> e_type ev = Some ''IssuesEvent'')
                    then 1 else 0)"
  by (simp add: event_step_def event_try_def in_window_def Let_def split: sum.splits option.splits)

lemma fold_event_step_recent:
  "recent_events (fold (event_step f now) evs c) = recent_events c + recent_event_count f now evs"
  by (induction evs arbitrary: c) (simp_all add: recent_event_count_def event_step_recent)

lemma fold_event_step_push:
  "push_events (fold (event_step f now) evs c) = push_events c + window_push_count f now evs"
  by (induction evs arbitrary: c) (simp_all add: window_push_count_def event_step_push)

lemma fold_event_step_pr:
  "pr_events (fold (event_step f now) evs c) = pr_events c + window_pr_count f now evs"
  by (induction evs arbitrary: c) (simp_all add: window_pr_count_def event_step_pr)

lemma count_events_eq:
  "count_events f now evs =
     \<lparr>recent_events = recent_event_count f now evs,
      push_events = window_push_count f now evs,
      pr_events = window_pr_count f now evs\<rparr>"
  by (simp add: count_events_def fold_event_step_recent fold_event_step_push fold_event_step_pr)

lemma event_step_raise_keeps:
  "parse_field f (e_created_at ev) = Inl err \<Longrightarrow>
     fst (event_try f now ev c) = Some err \<and> event_step f now ev c = c"
  by (simp add: event_step_def event_try_def)




lemma recent_activity_score_bounds:
  "0 \<le> recent_activity_score (analyze_activity_patterns f now evs repos)
   \<and> recent_activity_score (analyze_activity_patterns f now evs repos) \<le> 100"
  by (cases "evs = []")
     (simp_all add: analyze_activity_patterns_def Let_def count_events_eq recent_event_count_def)

lemma fork_flag: "get_or (r_fork repo) False = (r_fork repo = Some True)"
  by (simp add: get_or_def split: option.splits)

lemma is_collab_event_eq:
  "is_collab_event ev = (e_type ev = Some ''ForkEvent'' \<or> e_type ev = Some ''PullRequestEvent''
                              \<or> e_type ev = Some ''IssuesEvent'')"
  by (auto simp: is_collab_event_def split: option.splits)

lemma analyze_collaboration_style_eq:
  "analyze_collaboration_style repos evs =
     (if (of_int (forked_count repos) :: rat) > of_int (original_count repos) * (1 / 2)
          \<or> collab_event_count evs > 5
      then ''collaborative''
      else if forked_count repos > 0 \<or> collab_event_count evs > 0 then ''mixed''
      else ''independent'')"
  by (simp add: analyze_collaboration_style_def Let_def forked_count_def original_count_def
        collab_event_count_def fork_flag is_collab_event_eq[abs_def])

lemma length_most_common: "length (most_common n c) \<le> n"
  by (simp add: most_common_def)

section \<open>The expertise score\<close>

lemma total_score_truncated:
  "total_score f now u rs a = truncated_total_score f now u rs a"
  by (simp add: total_score_def truncated_total_score_def account_age_factor_def account_age_try_def
        repo_count_factor_def followers_factor_def activity_factor_def complexity_factor_def
        stars_of_first_10_def sum_stars_def years_since_creation_def days_since_def Let_def
        split: sum.splits)

lemma level_tier:
  "calculate_expertise_level f now u rs a = tier_of_score (truncated_total_score f now u rs a)"
  by (simp add: calculate_expertise_level_def Let_def tier_of_score_def total_score_truncated)

lemma tier_expert: "(tier_of_score x = ''expert'') = (x > 70)"
  by (simp add: tier_of_score_def)
lemma tier_intermediate: "(tier_of_score x = ''intermediate'') = (40 < x \<and> x \<le> 70)"
  by (auto simp add: tier_of_score_def)
lemma tier_beginner: "(tier_of_score x = ''beginner'') = (15 < x \<and> x \<le> 40)"
  by (auto simp add: tier_of_score_def)
lemma tier_newcomer: "(tier_of_score x = ''newcomer'') = (x \<le> 15)"
  by (auto simp add: tier_of_score_def)

lemma py_int_nonneg: "0 \<le> x \<Longrightarrow> py_int x = \<lfloor>x\<rfloor>"
  by (simp add: py_int_def)

lemma age_factor_five_years:
  assumes "1825 \<le> d" "d \<le> 1827"
  shows "min (py_int ((of_int d :: rat) / 365 * 10)) 30 = 30"
proof -
  have "(50::rat) \<le> of_int d / 365 * 10" using assms by simp
  then have "50 \<le> \<lfloor>(of_int d :: rat) / 365 * 10\<rfloor>" by (simp add: le_floor_iff)
  moreover have "py_int ((of_int d :: rat) / 365 * 10) = \<lfloor>(of_int d :: rat) / 365 * 10\<rfloor>"
    using assms by (intro py_int_nonneg) simp
  ultimately show ?thesis by simp
qed

lemma scenario_score:
  assumes "parse_field f (u_created_at u) = Inr created"
      and "1825 \<le> days_since now created" and "days_since now created \<le> 1827"
      and "u_public_repos u = Some 40" and "u_followers u = Some 100"
      and "recent_activity_score a = 60" and "stars_of_first_10 rs = 30"
  shows "truncated_total_score f now u rs a = 90"
proof -
  have age: "min (py_int (years_since_creation now created * 10)) 30 = 30"
    unfolding years_since_creation_def using assms(2,3) by (rule age_factor_five_years)
  have cx: "py_int ((30::rat) * (2 / 10)) = 6" by (simp add: py_int_def)
  show ?thesis
    using assms(1,4,5,6,7) age cx by (simp add: truncated_total_score_def get_or_def)
qed

section \<open>The language dictionaries\<close>

lemma fromkeys_acc_cong:
  "set seen = set seen' \<Longrightarrow> fromkeys_acc seen xs = fromkeys_acc seen' xs"
proof (induction xs arbitrary: seen seen')
  case Nil
  show ?case by simp
next
  case (Cons x xs)
  have "fromkeys_acc (x # seen) xs = fromkeys_acc (x # seen') xs"
    by (rule Cons.IH) (simp add: Cons.prems)
  moreover have "fromkeys_acc seen xs = fromkeys_acc seen' xs"
    by (rule Cons.IH) (rule Cons.prems)
  ultimately show ?case using Cons.prems by simp
qed

lemma set_fromkeys_acc: "set (fromkeys_acc seen xs) = set xs - set seen"
  by (induction xs arbitrary: seen) auto

lemma distinct_fromkeys_acc: "distinct (fromkeys_acc seen xs)"
  by (induction xs arbitrary: seen) (auto simp: set_fromkeys_acc)

lemma fromkeys_acc_append:
  "fromkeys_acc seen (xs @ ys) = fromkeys_acc seen xs @ fromkeys_acc (xs @ seen) ys"
proof (induction xs arbitrary: seen)
  case Nil
  show ?case by simp
next
  case (Cons x xs)
  have c1: "fromkeys_acc (xs @ x # seen) ys = fromkeys_acc (x # xs @ seen) ys"
    by (rule fromkeys_acc_cong) auto
  have c2: "x \<in> set seen \<Longrightarrow> fromkeys_acc (xs @ seen) ys = fromkeys_acc (x # xs @ seen) ys"
    by (rule fromkeys_acc_cong) auto
  show ?case using c1 c2 by (simp add: Cons.IH)
qed

lemma fromkeys_acc_distinct:
  "distinct xs \<Longrightarrow> set xs \<inter> set seen = {} \<Longrightarrow> fromkeys_acc seen xs = xs"
  by (induction xs arbitrary: seen) auto

lemma length_fromkeys_acc: "length (fromkeys_acc seen xs) \<le> length xs"
  by (induction xs arbitrary: seen) (auto simp: le_SucI)

lemma fst_language_step: "fst (language_step repo st) = tally (\<lambda>r. 1) repo (fst st)"
  by (simp add: language_step_def tally_def Let_def split: option.splits)

lemma snd_language_step: "snd (language_step repo st) = tally repo_weight repo (snd st)"
  by (simp add: language_step_def tally_def Let_def repo_weight_def split: option.splits)

lemma fst_fold_language_step:
  "fst (fold language_step repos st) = fold (tally (\<lambda>r. 1)) repos (fst st)"
  by (induction repos arbitrary: st) (simp_all add: fst_language_step)

lemma snd_fold_language_step:
  "snd (fold language_step repos st) = fold (tally repo_weight) repos (snd st)"
  by (induction repos arbitrary: st) (simp_all add: snd_language_step)

lemma keys_tally:
  "map fst (tally w repo d) = map fst d @ fromkeys_acc (map fst d) (lang_keys repo)"
  by (auto simp: tally_def lang_keys_def dict_add_def update_keys split: option.splits)

lemma keys_fold_tally:
  "map fst (fold (tally w) repos d) =
     map fst d @ fromkeys_acc (map fst d) (concat (map lang_keys repos))"
proof (induction repos arbitrary: d)
  case Nil
  show ?case by simp
next
  case (Cons r rs)
  have "fromkeys_acc (map fst d @ fromkeys_acc (map fst d) (lang_keys r)) (concat (map lang_keys rs))
        = fromkeys_acc (lang_keys r @ map fst d) (concat (map lang_keys rs))"
    by (rule fromkeys_acc_cong) (auto simp: set_fromkeys_acc)
  then show ?case
    by (simp add: Cons.IH keys_tally fromkeys_acc_append)
qed

lemma map_of_tally:
  "map_of (tally w repo d) k =
     (if has_language repo k then Some (dict_get d k 0 + w repo) else map_of d k)"
  by (auto simp: tally_def has_language_def dict_add_def update_conv' split: option.splits)

lemma dict_get_tally:
  "dict_get (tally w repo d) k 0 = dict_get d k 0 + (if has_language repo k then w repo else 0)"
  by (simp add: dict_get_def map_of_tally)

lemma dict_get_fold_tally:
  "dict_get (fold (tally w) repos d) k 0 = dict_get d k 0 + tally_total w repos k"
  by (induction repos arbitrary: d) (simp_all add: tally_total_def dict_get_tally)

lemma alist_by_keys:
  "distinct (map fst xs) \<Longrightarrow> xs = map (\<lambda>k. (k, dict_get xs k dflt)) (map fst xs)"
proof (induction xs)
  case Nil
  show ?case by simp
next
  case (Cons p ps)
  obtain k v where p: "p = (k, v)" by (cases p)
  from Cons.prems p have notin: "k \<notin> fst ` set ps" and d: "distinct (map fst ps)" by auto
  have "map (\<lambda>k'. (k', dict_get (p # ps) k' dflt)) (map fst ps)
        = map (\<lambda>k'. (k', dict_get ps k' dflt)) (map fst ps)"
    using notin by (auto simp: dict_get_def p)
  with Cons.IH[OF d] show ?case by (simp add: p dict_get_def)
qed

lemma fold_tally_empty:
  "fold (tally w) repos [] = map (\<lambda>k. (k, tally_total w repos k)) (languages_seen repos)"
proof -
  let ?d = "fold (tally w) repos []"
  have keys: "map fst ?d = languages_seen repos"
    by (simp add: keys_fold_tally languages_seen_def dict_fromkeys_def)
  then have "distinct (map fst ?d)"
    by (simp add: languages_seen_def dict_fromkeys_def distinct_fromkeys_acc)
  then have "?d = map (\<lambda>k. (k, dict_get ?d k 0)) (map fst ?d)"
    by (rule alist_by_keys)
  moreover have "dict_get ([] :: (string \<times> int) list) k 0 = 0" for k
    by (simp add: dict_get_def)
  ultimately show ?thesis
    by (simp add: keys dict_get_fold_tally)
qed

lemma insort_key_map:
  "insort_key f (h x) (map h xs) = map h (insort_key (\<lambda>y. f (h y)) x xs)"
  by (induction xs) simp_all

lemma sort_key_map:
  "sort_key f (map h xs) = map h (sort_key (\<lambda>y. f (h y)) xs)"
  by (induction xs) (simp_all add: insort_key_map)

lemma sorted_by_value_desc_table:
  "map fst (take n (sorted_by_value_desc (map (\<lambda>k. (k, g k)) ks))) = take n (sort_key (\<lambda>k. - g k) ks)"
  by (simp add: sorted_by_value_desc_def sort_key_map take_map o_def)

lemma tally_total_weight: "tally_total repo_weight repos = language_weight repos"
  by (rule ext) (simp add: tally_total_def language_weight_def)

lemma tally_total_count: "tally_total (\<lambda>r. 1) repos = language_count repos"
  by (rule ext) (simp add: tally_total_def language_count_def sum_list_triv)

lemma all_languages_spec: "all_languages repos = spec_top_languages repos"
  by (simp add: all_languages_def spec_top_languages_def Let_def
        fst_fold_language_step snd_fold_language_step fold_tally_empty
        sorted_by_value_desc_table tally_total_weight tally_total_count
        ranked_by_weight_def ranked_by_count_def)

lemma dict_fromkeys_prefix:
  "distinct xs \<Longrightarrow> dict_fromkeys (xs @ ys) = xs @ fromkeys_acc xs ys"
  by (simp add: dict_fromkeys_def fromkeys_acc_append fromkeys_acc_distinct)

lemma spec_top_languages_head:
  "take (min 8 (length (languages_seen repos))) (spec_top_languages repos) = take 8 (ranked_by_weight repos)"
proof -
  let ?W = "take 8 (ranked_by_weight repos)"
  let ?X = "fromkeys_acc ?W (take 8 (ranked_by_count repos))"
  have d: "distinct ?W"
    by (simp add: ranked_by_weight_def languages_seen_def dict_fromkeys_def distinct_fromkeys_acc)
  have l: "min 8 (length (languages_seen repos)) = length ?W"
    by (simp add: ranked_by_weight_def min.commute)
  have le: "min (length ?W) 10 = length ?W"
    by simp
  have s: "spec_top_languages repos = take 10 (?W @ ?X)"
    by (simp only: spec_top_languages_def dict_fromkeys_prefix [OF d])
  have "take (length ?W) (take 10 (?W @ ?X)) = take (length ?W) (?W @ ?X)"
    by (simp only: take_take le)
  also have "\<dots> = ?W"
    by (rule append_eq_conv_conj [THEN iffD1, THEN conjunct1, symmetric]) (rule refl)
  finally show ?thesis
    by (simp only: l s)
qed

section \<open>Caps\<close>

lemma length_all_languages: "length (all_languages repos) \<le> 10"
  by (simp add: all_languages_def Let_def)

lemma length_extract_project_domains: "length (extract_project_domains repos) \<le> 5"
  by (simp add: extract_project_domains_def Let_def most_common_def)

lemma length_popular_topics: "length (popular_topics (analyze_repositories so f now repos)) \<le> 5"
  by (simp add: analyze_repositories_topics most_common_def)

section \<open>The assembled profile\<close>

lemma analyze_empty:
  "activity_type (p_activity_analysis (analyze so f now username user_data [] [])) = ''moderate''
   \<and> avg_complexity (p_repo_analysis (analyze so f now username user_data [] [])) = ''beginner''
   \<and> p_project_complexity_preference (analyze so f now username user_data [] []) = ''beginner''
   \<and> p_collaboration_style (analyze so f now username user_data [] []) = ''independent''"
  by (simp add: analyze_def Let_def analyze_activity_patterns_def analyze_repositories_complexity
        avg_stars_def sum_stars_def sum_forks_def analyze_collaboration_style_def)

lemma get_user_profile_ok:
  "get_user net username = Inr (200, user_data) \<Longrightarrow>
   get_repos net username = Inr (rstat, rbody) \<Longrightarrow>
   get_events net username = Inr (estat, ebody) \<Longrightarrow>
   get_user_profile so f now net username =
     Inr (analyze so f now username user_data (if rstat = 200 then rbody else [])
            (if estat = 200 then ebody else []))"
  by (simp add: get_user_profile_def Let_def)

lemma sample_created:
  "parse_field sample_parser (Some ''2021-11-04T00:00:00Z'') = Inr 1635984000000000"
  by (simp add: parse_field_def sample_parser_def replace_Z_def)

lemma sample_days: "days_since sample_now 1635984000000000 = 1826"
  by (simp add: days_since_def sample_now_def timedelta_days_def)

lemma five_year_score:
  assumes "parse_field f (u_created_at u) = Inr created"
      and "1825 \<le> days_since now created" and "days_since now created \<le> 1827"
  shows "truncated_total_score f now u rs a =
           30 + of_int (min (get_or (u_public_repos u) 0 * 2) 25)
           + min (of_int (get_or (u_followers u) 0) * (1 / 2)) 20
           + of_int (recent_activity_score a) * (15 / 100)
           + of_int (min (py_int (of_int (stars_of_first_10 rs) * (2 / 10))) 10)"
proof -
  have age: "min (py_int (years_since_creation now created * 10)) 30 = 30"
    unfolding years_since_creation_def using assms(2,3) by (rule age_factor_five_years)
  show ?thesis
    using assms(1) age by (simp add: truncated_total_score_def)
qed

section \<open>Malformed timestamps\<close>







section \<open>The service\<close>

lemma strip_Nil: "strip [] = []"
  by (simp add: strip_def)

lemma not_ok_not_isalnum:
  assumes "\<not> list_all username_char_ok s"
  shows "\<not> isalnum (remove_char (CHR ''_'') (remove_char (CHR ''-'') s))"
proof -
  from assms obtain c where c: "c \<in> set s" "\<not> username_char_ok c"
    by (auto simp: list_all_iff)
  then have "c \<in> set (remove_char (CHR ''_'') (remove_char (CHR ''-'') s))" "\<not> isalnum_char c"
    by (auto simp: remove_char_def username_char_ok_def)
  then show ?thesis
    by (auto simp: isalnum_def list_all_iff)
qed

lemma isalnum_ok:
  assumes "isalnum (remove_char (CHR ''_'') (remove_char (CHR ''-'') s))"
  shows "list_all username_char_ok s"
  using assms by (auto simp: isalnum_def list_all_iff remove_char_def username_char_ok_def)

lemma validate_empty:
  "strip username = [] \<Longrightarrow> validate_username username = Inl (Exception username_empty_message)"
  by (simp add: validate_username_def)

lemma validate_long:
  "strip username \<noteq> [] \<Longrightarrow> length (strip username) > 39 \<Longrightarrow>
     validate_username username = Inl (Exception username_too_long_message)"
  by (auto simp: validate_username_def Let_def strip_Nil)

lemma validate_bad_char:
  "strip username \<noteq> [] \<Longrightarrow> length (strip username) \<le> 39 \<Longrightarrow>
   \<not> list_all username_char_ok (strip username) \<Longrightarrow>
     validate_username username = Inl (Exception username_invalid_message)"
  by (auto simp: validate_username_def Let_def strip_Nil dest: not_ok_not_isalnum)

lemma validate_Inr:
  "validate_username username = Inr s \<Longrightarrow>
     s = strip username \<and> s \<noteq> [] \<and> length s \<le> 39 \<and> list_all username_char_ok s"
  by (auto simp: validate_username_def Let_def split: if_splits dest: isalnum_ok)

lemma analyze_failure:
  "analyze_try agents fetch call_agent username agent_name = Inl e \<Longrightarrow>
     analyze_github_profile agents fetch call_agent username agent_name
       = failure_response agent_name (str_of_exception e)"
  by (simp add: analyze_github_profile_def failure_response_def)

lemma analyze_shape:
  "(\<exists>msg. analyze_github_profile agents fetch call_agent username agent_name
            = failure_response agent_name msg)
   \<or> (\<exists>recs prof. analyze_github_profile agents fetch call_agent username agent_name
            = \<lparr>success = True, agent = agent_name, recommendations = Some recs,
               profile = Some prof, error = None\<rparr>)"
  by (cases "analyze_try agents fetch call_agent username agent_name")
     (auto simp: analyze_github_profile_def failure_response_def)

lemma analyze_success_valid:
  "success (analyze_github_profile agents fetch call_agent username agent_name) \<Longrightarrow>
     validate_username username = Inr (strip username)"
  by (auto simp: analyze_github_profile_def analyze_try_def Let_def
        split: sum.splits if_splits dest: validate_Inr)

lemma padded_strip: "strip sample_padded_username = ''octocat''"
  unfolding sample_padded_username_def by code_simp

lemma padded_len: "length sample_padded_username = 40"
  unfolding sample_padded_username_def by simp

lemma padded_bad: "\<not> list_all username_char_ok sample_padded_username"
  unfolding sample_padded_username_def by code_simp

lemma valid_octocat: "validate_username sample_padded_username = Inr ''octocat''"
  unfolding sample_padded_username_def by code_simp

section \<open>The profile and its analyses\<close>








section \<open>The order of a set\<close>

lemma enumerates_sample_order: "enumerates sample_order"
  by (simp add: enumerates_def sample_order_def dict_fromkeys_def set_fromkeys_acc distinct_fromkeys_acc)

lemma enumerates_sample_reverse_order: "enumerates sample_reverse_order"
  by (simp add: enumerates_def sample_reverse_order_def dict_fromkeys_def set_fromkeys_acc
        distinct_fromkeys_acc)

lemma without_set_lists_analyze:
  "without_set_lists (analyze so1 f now username user_data repos evs)
     = without_set_lists (analyze so2 f now username user_data repos evs)"
  by (simp add: without_set_lists_def analyze_def analyze_repositories_def Let_def)

lemma profile_eq_by_lists:
  assumes "without_set_lists p = without_set_lists q"
      and "frameworks_used (p_repo_analysis p) = frameworks_used (p_repo_analysis q)"
      and "project_types (p_repo_analysis p) = project_types (p_repo_analysis q)"
  shows "p = (q :: scored_profile)"
proof -
  have "p_repo_analysis p = p_repo_analysis q"
    using assms by (cases "p_repo_analysis p"; cases "p_repo_analysis q")
                   (simp add: without_set_lists_def, (cases p; cases q), simp)
  then show ?thesis
    using assms(1) by (cases p; cases q) (simp add: without_set_lists_def)
qed

lemma analyze_frameworks:
  "frameworks_used (p_repo_analysis (analyze so f now username user_data repos evs))
     = so (l_frameworks (fold (repo_step f now) (take 20 repos) repo_loop_init))"
  "project_types (p_repo_analysis (analyze so f now username user_data repos evs))
     = so (l_project_types (fold (repo_step f now) (take 20 repos) repo_loop_init))"
  by (simp_all add: analyze_def analyze_repositories_def Let_def)

lemma enumerates_same:
  assumes "enumerates so1" "enumerates so2"
  shows "set (so1 xs) = set (so2 xs) \<and> length (so1 xs) = length (so2 xs)
         \<and> distinct (so1 xs) \<and> distinct (so2 xs)"
proof -
  from assms have s: "set (so1 xs) = set xs" "set (so2 xs) = set xs"
    and d: "distinct (so1 xs)" "distinct (so2 xs)"
    by (simp_all add: enumerates_def)
  from d have "length (so1 xs) = card (set (so1 xs))" "length (so2 xs) = card (set (so2 xs))"
    by (simp_all add: distinct_card)
  with s d show ?thesis by simp
qed

lemma labelled_lists:
  "l_frameworks (fold (repo_step sample_parser sample_now) (take 20 [sample_labelled_repo]) repo_loop_init)
     = [''Frontend Framework'', ''Backend Framework'']"
  "l_project_types (fold (repo_step sample_parser sample_now) (take 20 [sample_labelled_repo]) repo_loop_init)
     = [''AI/ML'', ''API Development'']"
  unfolding sample_labelled_repo_def by code_simp+

section \<open>Claims\<close>

text \<open>
  Claim C1, as amended. For every user record, the analysis of an empty repository list
  and an empty event list returns a profile whose activity tier is \<open>moderate\<close>, whose
  complexity tier and \<open>project_complexity_preference\<close> are \<open>beginner\<close> (an average of 0
  stars is below 5 and 0 forks are below 3), and whose collaboration style is
  \<open>independent\<close>; and when the three requests answer with a user and two empty lists,
  \<open>get_user_profile\<close> returns that profile and raises nothing.
\<close>

theorem C1_empty_input:
  "activity_type (p_activity_analysis (analyze so f now username user_data [] [])) = ''moderate''
   \<and> avg_complexity (p_repo_analysis (analyze so f now username user_data [] [])) = ''beginner''
   \<and> p_project_complexity_preference (analyze so f now username user_data [] []) = ''beginner''
   \<and> p_collaboration_style (analyze so f now username user_data [] []) = ''independent''
   \<and> (get_user net username = Inr (200, user_data)
        \<and> get_repos net username = Inr (rstat, [])
        \<and> get_events net username = Inr (estat, [])
       \<longrightarrow> get_user_profile so f now net username = Inr (analyze so f now username user_data [] []))"
  using get_user_profile_ok [of net username user_data rstat "[]" estat "[]" so f now]
  by (simp add: analyze_empty)

theorem C1_empty_input_witness:
  "get_user (sample_web (sample_user None 0 0) [] []) ''octocat'' = Inr (200, sample_user None 0 0)
   \<and> get_repos (sample_web (sample_user None 0 0) [] []) ''octocat'' = Inr (200, [])
   \<and> get_events (sample_web (sample_user None 0 0) [] []) ''octocat'' = Inr (200, [])
   \<and> get_user_profile sample_order sample_parser sample_now (sample_web (sample_user None 0 0) [] []) ''octocat''
       = Inr (analyze sample_order sample_parser sample_now ''octocat'' (sample_user None 0 0) [] [])
   \<and> p_project_complexity_preference
       (analyze sample_order sample_parser sample_now ''octocat'' (sample_user None 0 0) [] []) = ''beginner''"
proof -
  let ?net = "sample_web (sample_user None 0 0) [] []"
  have h: "get_user ?net ''octocat'' = Inr (200, sample_user None 0 0)
           \<and> get_repos ?net ''octocat'' = Inr (200, [])
           \<and> get_events ?net ''octocat'' = Inr (200, [])"
    by (simp add: sample_web_def)
  from h C1_empty_input [of sample_order sample_parser sample_now "''octocat''" "sample_user None 0 0" ?net 200 200]
  show ?thesis by blast
qed

text \<open>
  Claim C1 as the specification states it asks for the complexity tier \<open>intermediate\<close>
  on empty input; for the sample user the tier is not \<open>intermediate\<close>.
\<close>

theorem C1_counterexample:
  "avg_complexity (p_repo_analysis
       (analyze sample_order sample_parser sample_now ''octocat'' (sample_user None 0 0) [] [])) \<noteq> ''intermediate''
   \<and> p_project_complexity_preference
       (analyze sample_order sample_parser sample_now ''octocat'' (sample_user None 0 0) [] []) \<noteq> ''intermediate''"
  by (simp add: analyze_empty)

text \<open>
  Claim C2, as amended. For every user record, repository sequence and activity
  analysis, the expertise tier is the tier of the sum of five capped factors, where the
  account-age factor is \<open>min(int(years * 10), 30)\<close> and the complexity factor is
  \<open>min(int(stars_of_first_10 * 0.2), 10)\<close>, both truncated to an integer before the cap,
  and the other three are \<open>min(public_repos * 2, 25)\<close>, \<open>min(followers * 0.5, 20)\<close> and
  \<open>activity_score * 0.15\<close>. The account-age factor is 10 when the creation timestamp
  does not parse. The comparisons are strict: above 70 \<open>expert\<close>, above 40
  \<open>intermediate\<close>, above 15 \<open>beginner\<close>, otherwise \<open>newcomer\<close>; a sum of exactly 70 is
  \<open>intermediate\<close> and 71 is \<open>expert\<close>. A five-year account with 40 repositories, 100
  followers, activity score 60 and 30 stars in the first ten repositories scores 90 and
  is \<open>expert\<close>.
\<close>

theorem C2_expertise_tier:
  "calculate_expertise_level f now u rs a = tier_of_score (truncated_total_score f now u rs a)
   \<and> (calculate_expertise_level f now u rs a = ''expert''
        \<longleftrightarrow> truncated_total_score f now u rs a > 70)
   \<and> (calculate_expertise_level f now u rs a = ''intermediate''
        \<longleftrightarrow> 40 < truncated_total_score f now u rs a \<and> truncated_total_score f now u rs a \<le> 70)
   \<and> (calculate_expertise_level f now u rs a = ''beginner''
        \<longleftrightarrow> 15 < truncated_total_score f now u rs a \<and> truncated_total_score f now u rs a \<le> 40)
   \<and> (calculate_expertise_level f now u rs a = ''newcomer''
        \<longleftrightarrow> truncated_total_score f now u rs a \<le> 15)
   \<and> (truncated_total_score f now u rs a = 70
        \<longrightarrow> calculate_expertise_level f now u rs a = ''intermediate'')
   \<and> (truncated_total_score f now u rs a = 71
        \<longrightarrow> calculate_expertise_level f now u rs a = ''expert'')
   \<and> (\<not> parses f (u_created_at u) \<longrightarrow> account_age_factor f now u = 10)
   \<and> (parse_field f (u_created_at u) = Inr created
        \<and> 1825 \<le> days_since now created \<and> days_since now created \<le> 1827
        \<and> u_public_repos u = Some 40 \<and> u_followers u = Some 100
        \<and> recent_activity_score a = 60 \<and> stars_of_first_10 rs = 30
       \<longrightarrow> truncated_total_score f now u rs a = 90
           \<and> calculate_expertise_level f now u rs a = ''expert'')"
proof -
  have fallback: "\<not> parses f (u_created_at u) \<longrightarrow> account_age_factor f now u = 10"
    by (simp add: parses_def account_age_factor_def account_age_try_def split: sum.splits)
  have scenario: "parse_field f (u_created_at u) = Inr created
        \<and> 1825 \<le> days_since now created \<and> days_since now created \<le> 1827
        \<and> u_public_repos u = Some 40 \<and> u_followers u = Some 100
        \<and> recent_activity_score a = 60 \<and> stars_of_first_10 rs = 30
       \<longrightarrow> truncated_total_score f now u rs a = 90"
    using scenario_score [of f u created now a rs] by blast
  show ?thesis
    using fallback scenario
    by (simp add: level_tier tier_expert tier_intermediate tier_beginner tier_newcomer)
qed

theorem C2_expertise_tier_witness:
  "truncated_total_score sample_parser sample_now
       (sample_user (Some ''2021-11-04T00:00:00Z'') 40 10)
       [sample_repo ''kernel'' None 50 0 False ''2026-11-01T00:00:00Z''] (sample_activity 0) = 70
   \<and> calculate_expertise_level sample_parser sample_now
       (sample_user (Some ''2021-11-04T00:00:00Z'') 40 10)
       [sample_repo ''kernel'' None 50 0 False ''2026-11-01T00:00:00Z''] (sample_activity 0)
       = ''intermediate''
   \<and> truncated_total_score sample_parser sample_now
       (sample_user (Some ''2021-11-04T00:00:00Z'') 40 12)
       [sample_repo ''kernel'' None 50 0 False ''2026-11-01T00:00:00Z''] (sample_activity 0) = 71
   \<and> calculate_expertise_level sample_parser sample_now
       (sample_user (Some ''2021-11-04T00:00:00Z'') 40 12)
       [sample_repo ''kernel'' None 50 0 False ''2026-11-01T00:00:00Z''] (sample_activity 0)
       = ''expert''
   \<and> \<not> parses sample_parser (u_created_at (sample_user (Some ''five years ago'') 40 12))
   \<and> account_age_factor sample_parser sample_now (sample_user (Some ''five years ago'') 40 12) = 10
   \<and> days_since sample_now 1635984000000000 = 1826
   \<and> stars_of_first_10 [sample_repo ''kernel'' None 30 0 False ''2026-11-01T00:00:00Z''] = 30
   \<and> calculate_expertise_level sample_parser sample_now
       (sample_user (Some ''2021-11-04T00:00:00Z'') 40 100)
       [sample_repo ''kernel'' None 30 0 False ''2026-11-01T00:00:00Z''] (sample_activity 60)
       = ''expert''"
proof -
  let ?r50 = "[sample_repo ''kernel'' None 50 0 False ''2026-11-01T00:00:00Z'']"
  let ?r30 = "[sample_repo ''kernel'' None 30 0 False ''2026-11-01T00:00:00Z'']"
  have p: "parse_field sample_parser (u_created_at (sample_user (Some ''2021-11-04T00:00:00Z'') n k))
             = Inr 1635984000000000" for n k
    by (simp add: sample_user_def sample_created)
  have d: "1825 \<le> days_since sample_now 1635984000000000"
          "days_since sample_now 1635984000000000 \<le> 1827"
    by (simp_all add: sample_days)
  have s70: "truncated_total_score sample_parser sample_now
               (sample_user (Some ''2021-11-04T00:00:00Z'') 40 10) ?r50 (sample_activity 0) = 70"
    by (simp add: five_year_score [OF p d])
       (simp add: sample_user_def sample_repo_def sample_activity_def get_or_def
          stars_of_first_10_def sum_stars_def py_int_def)
  have s71: "truncated_total_score sample_parser sample_now
               (sample_user (Some ''2021-11-04T00:00:00Z'') 40 12) ?r50 (sample_activity 0) = 71"
    by (simp add: five_year_score [OF p d])
       (simp add: sample_user_def sample_repo_def sample_activity_def get_or_def
          stars_of_first_10_def sum_stars_def py_int_def)
  have np: "\<not> parses sample_parser (u_created_at (sample_user (Some ''five years ago'') 40 12))"
    by (simp add: parses_def parse_field_def sample_user_def sample_parser_def replace_Z_def)
  have st: "stars_of_first_10 ?r30 = 30"
    by (simp add: stars_of_first_10_def sum_stars_def sample_repo_def get_or_def)
  have sc: "u_public_repos (sample_user (Some ''2021-11-04T00:00:00Z'') 40 100) = Some 40
            \<and> u_followers (sample_user (Some ''2021-11-04T00:00:00Z'') 40 100) = Some 100
            \<and> recent_activity_score (sample_activity 60) = 60"
    by (simp add: sample_user_def sample_activity_def)
  from s70 C2_expertise_tier [of sample_parser sample_now
      "sample_user (Some ''2021-11-04T00:00:00Z'') 40 10" ?r50 "sample_activity 0"]
  have w70: "calculate_expertise_level sample_parser sample_now
       (sample_user (Some ''2021-11-04T00:00:00Z'') 40 10) ?r50 (sample_activity 0) = ''intermediate''"
    by blast
  from s71 C2_expertise_tier [of sample_parser sample_now
      "sample_user (Some ''2021-11-04T00:00:00Z'') 40 12" ?r50 "sample_activity 0"]
  have w71: "calculate_expertise_level sample_parser sample_now
       (sample_user (Some ''2021-11-04T00:00:00Z'') 40 12) ?r50 (sample_activity 0) = ''expert''"
    by blast
  from np C2_expertise_tier [of sample_parser sample_now
      "sample_user (Some ''five years ago'') 40 12"]
  have wfb: "account_age_factor sample_parser sample_now
               (sample_user (Some ''five years ago'') 40 12) = 10"
    by blast
  from p d st sc C2_expertise_tier [of sample_parser sample_now
      "sample_user (Some ''2021-11-04T00:00:00Z'') 40 100" ?r30 "sample_activity 60"
      1635984000000000]
  have wsc: "calculate_expertise_level sample_parser sample_now
       (sample_user (Some ''2021-11-04T00:00:00Z'') 40 100) ?r30 (sample_activity 60) = ''expert''"
    by blast
  from s70 w70 s71 w71 np wfb st wsc sample_days show ?thesis by blast
qed

text \<open>
  Claim C2 as the specification states it sums the factors without truncation. With an
  unparseable creation timestamp, 10 followers and 4 stars that sum is 15.8 and its
  tier \<open>beginner\<close>; the source truncates \<open>4 * 0.2\<close> to 0, scores 15 and answers
  \<open>newcomer\<close>.
\<close>

theorem C2_counterexample:
  "spec_expertise_tier sample_parser sample_now (sample_user None 0 10)
     [sample_repo ''dotfiles'' None 4 0 False ''2026-11-01T00:00:00Z''] (sample_activity 0)
     = ''beginner''
   \<and> calculate_expertise_level sample_parser sample_now (sample_user None 0 10)
     [sample_repo ''dotfiles'' None 4 0 False ''2026-11-01T00:00:00Z''] (sample_activity 0)
     = ''newcomer''"
  by (simp add: spec_expertise_tier_def spec_total_score_def level_tier truncated_total_score_def
        tier_of_score_def parse_field_def sample_user_def sample_repo_def sample_activity_def
        get_or_def stars_of_first_10_def sum_stars_def py_int_def)

text \<open>
  Claim C3. For every repository sequence, the totals of the analysis are the sums of
  the star and fork counts, and with \<open>avg_stars = total_stars / max(count, 1)\<close> the
  complexity tier is \<open>advanced\<close> exactly when \<open>avg_stars > 50\<close> or \<open>total_forks > 20\<close>,
  otherwise \<open>beginner\<close> exactly when \<open>avg_stars < 5\<close> and \<open>total_forks < 3\<close>, otherwise
  \<open>intermediate\<close>. The comparisons are strict: ten repositories with 501 stars are
  \<open>advanced\<close>, and an average of exactly 50 with at most 20 forks is \<open>intermediate\<close>.
\<close>

theorem C3_complexity_tier:
  "total_stars (analyze_repositories so f now repos) = sum_stars repos
   \<and> total_forks (analyze_repositories so f now repos) = sum_forks repos
   \<and> (avg_complexity (analyze_repositories so f now repos) = ''advanced''
        \<longleftrightarrow> avg_stars repos > 50 \<or> sum_forks repos > 20)
   \<and> (avg_complexity (analyze_repositories so f now repos) = ''beginner''
        \<longleftrightarrow> \<not> (avg_stars repos > 50 \<or> sum_forks repos > 20)
            \<and> avg_stars repos < 5 \<and> sum_forks repos < 3)
   \<and> (avg_complexity (analyze_repositories so f now repos) = ''intermediate''
        \<longleftrightarrow> \<not> (avg_stars repos > 50 \<or> sum_forks repos > 20)
            \<and> \<not> (avg_stars repos < 5 \<and> sum_forks repos < 3))
   \<and> (length repos = 10 \<and> sum_stars repos = 501
        \<longrightarrow> avg_complexity (analyze_repositories so f now repos) = ''advanced'')
   \<and> (avg_stars repos = 50 \<and> sum_forks repos \<le> 20
        \<longrightarrow> avg_complexity (analyze_repositories so f now repos) = ''intermediate'')"
proof -
  have tier: "avg_complexity (analyze_repositories so f now repos) =
     (if avg_stars repos > 50 \<or> sum_forks repos > 20 then ''advanced''
      else if avg_stars repos < 5 \<and> sum_forks repos < 3 then ''beginner''
      else ''intermediate'')"
    by (rule analyze_repositories_complexity)
  have boundary: "length repos = 10 \<and> sum_stars repos = 501 \<longrightarrow> avg_stars repos > 50"
    by (simp add: avg_stars_def)
  show ?thesis
    using boundary
    by (simp add: tier analyze_repositories_total_stars analyze_repositories_total_forks)
qed

theorem C3_complexity_tier_witness:
  "length (map (\<lambda>n. sample_repo ''tool'' None n 2 False ''2026-11-01T00:00:00Z'')
             [50, 50, 50, 50, 50, 50, 50, 50, 50, 51]) = 10
   \<and> sum_stars (map (\<lambda>n. sample_repo ''tool'' None n 2 False ''2026-11-01T00:00:00Z'')
                  [50, 50, 50, 50, 50, 50, 50, 50, 50, 51]) = 501
   \<and> avg_complexity (analyze_repositories sample_order sample_parser sample_now
        (map (\<lambda>n. sample_repo ''tool'' None n 2 False ''2026-11-01T00:00:00Z'')
           [50, 50, 50, 50, 50, 50, 50, 50, 50, 51])) = ''advanced''
   \<and> avg_stars (map (\<lambda>n. sample_repo ''tool'' None n 2 False ''2026-11-01T00:00:00Z'')
                  [50, 50, 50, 50, 50, 50, 50, 50, 50, 50]) = 50
   \<and> sum_forks (map (\<lambda>n. sample_repo ''tool'' None n 2 False ''2026-11-01T00:00:00Z'')
                  [50, 50, 50, 50, 50, 50, 50, 50, 50, 50]) \<le> 20
   \<and> avg_complexity (analyze_repositories sample_order sample_parser sample_now
        (map (\<lambda>n. sample_repo ''tool'' None n 2 False ''2026-11-01T00:00:00Z'')
           [50, 50, 50, 50, 50, 50, 50, 50, 50, 50])) = ''intermediate''"
proof -
  let ?A = "map (\<lambda>n. sample_repo ''tool'' None n 2 False ''2026-11-01T00:00:00Z'')
              [50, 50, 50, 50, 50, 50, 50, 50, 50, 51]"
  let ?B = "map (\<lambda>n. sample_repo ''tool'' None n 2 False ''2026-11-01T00:00:00Z'')
              [50, 50, 50, 50, 50, 50, 50, 50, 50, 50]"
  have a: "length ?A = 10 \<and> sum_stars ?A = 501"
    by (simp add: sum_stars_def sample_repo_def get_or_def)
  have b: "avg_stars ?B = 50 \<and> sum_forks ?B \<le> 20"
    by (simp add: avg_stars_def sum_stars_def sum_forks_def sample_repo_def get_or_def)
  show ?thesis
    using a b C3_complexity_tier [of sample_order sample_parser sample_now ?A]
      C3_complexity_tier [of sample_order sample_parser sample_now ?B]
    by blast
qed

text \<open>
  Claim C4. For every non-empty event sequence and reference instant, let
  \<open>recent_event_count\<close> be the number of events whose timestamp parses and lies in the
  trailing 30-day window, and let the push and pull-request/issue counts be taken over
  that window. The loop of \<open>_analyze_activity_patterns\<close> ends with exactly these three
  counts; the recent activity score is \<open>min(recent_event_count * 3, 100)\<close>; the tier is
  \<open>very_active\<close> above 20, \<open>active\<close> above 10, \<open>moderate\<close> above 3 and \<open>low\<close> otherwise;
  the collaboration level is \<open>collaborative\<close> if \<open>pr_events > push_events * 0.3\<close>,
  else \<open>mixed\<close> if \<open>pr_events > 0\<close>, else \<open>individual\<close>.
\<close>

theorem C4_activity_patterns:
  "evs \<noteq> [] \<Longrightarrow>
     count_events f now evs =
       \<lparr>recent_events = recent_event_count f now evs,
        push_events = window_push_count f now evs,
        pr_events = window_pr_count f now evs\<rparr>
   \<and> recent_activity_score (analyze_activity_patterns f now evs repos) =
       min (recent_event_count f now evs * 3) 100
   \<and> activity_type (analyze_activity_patterns f now evs repos) =
       (if recent_event_count f now evs > 20 then ''very_active''
        else if recent_event_count f now evs > 10 then ''active''
        else if recent_event_count f now evs > 3 then ''moderate''
        else ''low'')
   \<and> collaboration_level (analyze_activity_patterns f now evs repos) =
       (if (of_int (window_pr_count f now evs) :: rat) > of_int (window_push_count f now evs) * (3 / 10)
        then ''collaborative''
        else if window_pr_count f now evs > 0 then ''mixed''
        else ''individual'')"
  by (simp add: analyze_activity_patterns_def Let_def count_events_eq)

theorem C4_activity_patterns_witness:
  "[sample_event ''PushEvent'' ''2026-11-01T00:00:00Z'',
    sample_event ''IssuesEvent'' ''2026-11-01T00:00:00Z'',
    sample_event ''PushEvent'' ''2025-01-01T00:00:00Z'',
    sample_event ''PullRequestEvent'' ''yesterday''] \<noteq> []
   \<and> recent_activity_score (analyze_activity_patterns sample_parser sample_now
        [sample_event ''PushEvent'' ''2026-11-01T00:00:00Z'',
         sample_event ''IssuesEvent'' ''2026-11-01T00:00:00Z'',
         sample_event ''PushEvent'' ''2025-01-01T00:00:00Z'',
         sample_event ''PullRequestEvent'' ''yesterday''] []) = 6
   \<and> activity_type (analyze_activity_patterns sample_parser sample_now
        [sample_event ''PushEvent'' ''2026-11-01T00:00:00Z'',
         sample_event ''IssuesEvent'' ''2026-11-01T00:00:00Z'',
         sample_event ''PushEvent'' ''2025-01-01T00:00:00Z'',
         sample_event ''PullRequestEvent'' ''yesterday''] []) = ''low''
   \<and> collaboration_level (analyze_activity_patterns sample_parser sample_now
        [sample_event ''PushEvent'' ''2026-11-01T00:00:00Z'',
         sample_event ''IssuesEvent'' ''2026-11-01T00:00:00Z'',
         sample_event ''PushEvent'' ''2025-01-01T00:00:00Z'',
         sample_event ''PullRequestEvent'' ''yesterday''] []) = ''collaborative''"
proof -
  let ?evs = "[sample_event ''PushEvent'' ''2026-11-01T00:00:00Z'',
               sample_event ''IssuesEvent'' ''2026-11-01T00:00:00Z'',
               sample_event ''PushEvent'' ''2025-01-01T00:00:00Z'',
               sample_event ''PullRequestEvent'' ''yesterday'']"
  have ne: "?evs \<noteq> []" by simp
  have w: "in_window sample_parser sample_now (sample_event t ''2026-11-01T00:00:00Z'')"
          "\<not> in_window sample_parser sample_now (sample_event t ''2025-01-01T00:00:00Z'')"
          "\<not> in_window sample_parser sample_now (sample_event t ''yesterday'')" for t
    by (simp_all add: in_window_def parse_field_def sample_event_def sample_parser_def
          sample_now_def replace_Z_def timedelta_days_def)
  have n: "recent_event_count sample_parser sample_now ?evs = 2"
          "window_push_count sample_parser sample_now ?evs = 1"
          "window_pr_count sample_parser sample_now ?evs = 1"
    by (simp_all add: recent_event_count_def window_push_count_def window_pr_count_def w)
       (simp_all add: sample_event_def)
  show ?thesis
    using C4_activity_patterns [OF ne, of sample_parser sample_now "[]"]
    by (simp add: n)
qed

text \<open>
  Claim C5. For every repository sequence and event sequence, with \<open>forked_count\<close> the
  repositories flagged as forks, \<open>original_count\<close> the rest and \<open>collab_events\<close> the
  fork, pull-request and issue events, the collaboration style is \<open>collaborative\<close> if
  \<open>forked_count > original_count * 0.5\<close> or \<open>collab_events > 5\<close>, else \<open>mixed\<close> if
  \<open>forked_count > 0\<close> or \<open>collab_events > 0\<close>, else \<open>independent\<close>. Ten repositories
  of which six are forks are \<open>collaborative\<close> whatever the events.
\<close>

theorem C5_collaboration_style:
  "analyze_collaboration_style repos evs =
     (if (of_int (forked_count repos) :: rat) > of_int (original_count repos) * (1 / 2)
          \<or> collab_event_count evs > 5
      then ''collaborative''
      else if forked_count repos > 0 \<or> collab_event_count evs > 0 then ''mixed''
      else ''independent'')
   \<and> (length repos = 10 \<and> forked_count repos = 6
        \<longrightarrow> analyze_collaboration_style repos evs = ''collaborative'')"
  by (simp add: analyze_collaboration_style_eq original_count_def)

theorem C5_collaboration_style_witness:
  "length (map (\<lambda>b. sample_repo ''tool'' None 0 0 b ''2026-11-01T00:00:00Z'')
             [True, True, True, True, True, True, False, False, False, False]) = 10
   \<and> forked_count (map (\<lambda>b. sample_repo ''tool'' None 0 0 b ''2026-11-01T00:00:00Z'')
             [True, True, True, True, True, True, False, False, False, False]) = 6
   \<and> collab_event_count [] = 0
   \<and> analyze_collaboration_style
        (map (\<lambda>b. sample_repo ''tool'' None 0 0 b ''2026-11-01T00:00:00Z'')
           [True, True, True, True, True, True, False, False, False, False]) [] = ''collaborative''"
proof -
  let ?rs = "map (\<lambda>b. sample_repo ''tool'' None 0 0 b ''2026-11-01T00:00:00Z'')
               [True, True, True, True, True, True, False, False, False, False]"
  have h: "length ?rs = 10 \<and> forked_count ?rs = 6"
    by (simp add: forked_count_def sample_repo_def)
  have e: "collab_event_count [] = 0"
    by (simp add: collab_event_count_def)
  from h C5_collaboration_style [of ?rs "[]"]
  have c: "analyze_collaboration_style ?rs [] = ''collaborative''"
    by blast
  from h e c show ?thesis by blast
qed

text \<open>
  Claim C6. For every input bundle the profile keeps its caps: at most 10 languages, at
  most 5 popular topics, at most 5 preferred domains, and a recent activity score
  between 0 and 100.
\<close>

theorem C6_cap_invariants:
  "length (p_languages (analyze so f now username user_data repos evs)) \<le> 10
   \<and> length (popular_topics (p_repo_analysis (analyze so f now username user_data repos evs))) \<le> 5
   \<and> length (p_preferred_domains (analyze so f now username user_data repos evs)) \<le> 5
   \<and> 0 \<le> p_recent_activity_score (analyze so f now username user_data repos evs)
   \<and> p_recent_activity_score (analyze so f now username user_data repos evs) \<le> 100
   \<and> p_recent_activity_score (analyze so f now username user_data repos evs)
       = recent_activity_score (p_activity_analysis (analyze so f now username user_data repos evs))"
  using recent_activity_score_bounds [of f now evs repos]
  by (simp add: analyze_def Let_def length_all_languages length_extract_project_domains
        length_popular_topics)

theorem C6_cap_invariants_witness:
  "length (p_languages (analyze sample_order sample_parser sample_now ''octocat''
       (sample_user None 3 10)
       [sample_repo ''web-app'' (Some ''Go'') 4 0 False ''2026-11-01T00:00:00Z'']
       [sample_event ''PushEvent'' ''2026-11-01T00:00:00Z''])) \<le> 10
   \<and> length (popular_topics (p_repo_analysis (analyze sample_order sample_parser sample_now ''octocat''
       (sample_user None 3 10)
       [sample_repo ''web-app'' (Some ''Go'') 4 0 False ''2026-11-01T00:00:00Z'']
       [sample_event ''PushEvent'' ''2026-11-01T00:00:00Z'']))) \<le> 5
   \<and> length (p_preferred_domains (analyze sample_order sample_parser sample_now ''octocat''
       (sample_user None 3 10)
       [sample_repo ''web-app'' (Some ''Go'') 4 0 False ''2026-11-01T00:00:00Z'']
       [sample_event ''PushEvent'' ''2026-11-01T00:00:00Z''])) \<le> 5
   \<and> 0 \<le> p_recent_activity_score (analyze sample_order sample_parser sample_now ''octocat''
       (sample_user None 3 10)
       [sample_repo ''web-app'' (Some ''Go'') 4 0 False ''2026-11-01T00:00:00Z'']
       [sample_event ''PushEvent'' ''2026-11-01T00:00:00Z''])
   \<and> p_recent_activity_score (analyze sample_order sample_parser sample_now ''octocat''
       (sample_user None 3 10)
       [sample_repo ''web-app'' (Some ''Go'') 4 0 False ''2026-11-01T00:00:00Z'']
       [sample_event ''PushEvent'' ''2026-11-01T00:00:00Z'']) \<le> 100"
  using C6_cap_invariants [of sample_order sample_parser sample_now "''octocat''" "sample_user None 3 10"
      "[sample_repo ''web-app'' (Some ''Go'') 4 0 False ''2026-11-01T00:00:00Z'']"
      "[sample_event ''PushEvent'' ''2026-11-01T00:00:00Z'']"]
  by blast

text \<open>
  Claim C7. For every repository sequence, the top-language list is the merge the
  specification describes: languages ranked by total weight, each repository adding
  \<open>(stars + 1) * (size + 1)\<close> to its language; languages ranked by repository count; each
  ranking cut to 8; the weighted ranking put before the count ranking; duplicates
  dropped keeping the first occurrence; the result cut to 10. The two rankings stay
  apart: the list starts with the weighted ranking, and a language enters from the count
  ranking only behind it.
\<close>

theorem C7_top_languages:
  "all_languages repos = spec_top_languages repos
   \<and> p_languages (analyze so f now username user_data repos evs) = spec_top_languages repos
   \<and> take (min 8 (length (languages_seen repos))) (all_languages repos)
       = take 8 (ranked_by_weight repos)"
  by (simp add: analyze_def Let_def all_languages_spec spec_top_languages_head)

theorem C7_top_languages_witness:
  "ranked_by_count sample_language_repos =
     [''Zig'', ''C'', ''Go'', ''Rust'', ''Java'', ''Ruby'', ''Perl'', ''Lua'', ''Nim'']
   \<and> all_languages sample_language_repos =
     [''C'', ''Go'', ''Rust'', ''Java'', ''Ruby'', ''Perl'', ''Lua'', ''Nim'', ''Zig'']"
proof -
  have c: "ranked_by_count sample_language_repos =
             [''Zig'', ''C'', ''Go'', ''Rust'', ''Java'', ''Ruby'', ''Perl'', ''Lua'', ''Nim'']"
    unfolding sample_language_repos_def by code_simp
  have s: "spec_top_languages sample_language_repos =
             [''C'', ''Go'', ''Rust'', ''Java'', ''Ruby'', ''Perl'', ''Lua'', ''Nim'', ''Zig'']"
    unfolding sample_language_repos_def by code_simp
  from C7_top_languages [where repos = sample_language_repos]
  have "all_languages sample_language_repos = spec_top_languages sample_language_repos"
    by blast
  with c s show ?thesis by simp
qed




text \<open>
  Claim C9, as amended. For every input bundle and fixed reference instant, two
  invocations of the analysis on identical raw input produce identical output in every
  field other than \<open>frameworks_used\<close> and \<open>project_types\<close>. These two lists come from
  \<open>list(set(...))\<close>: whatever order the set shows, they hold the same elements, each
  once, and the two outputs are identical as soon as these two lists come out in the
  same order.
\<close>

theorem C9_determinism:
  "without_set_lists (analyze so1 f now username user_data repos evs)
     = without_set_lists (analyze so2 f now username user_data repos evs)
   \<and> (frameworks_used (p_repo_analysis (analyze so1 f now username user_data repos evs))
         = frameworks_used (p_repo_analysis (analyze so2 f now username user_data repos evs))
       \<and> project_types (p_repo_analysis (analyze so1 f now username user_data repos evs))
         = project_types (p_repo_analysis (analyze so2 f now username user_data repos evs))
       \<longrightarrow> analyze so1 f now username user_data repos evs
           = analyze so2 f now username user_data repos evs)
   \<and> (enumerates so1 \<and> enumerates so2
       \<longrightarrow> set (frameworks_used (p_repo_analysis (analyze so1 f now username user_data repos evs)))
           = set (frameworks_used (p_repo_analysis (analyze so2 f now username user_data repos evs)))
         \<and> set (project_types (p_repo_analysis (analyze so1 f now username user_data repos evs)))
           = set (project_types (p_repo_analysis (analyze so2 f now username user_data repos evs)))
         \<and> length (frameworks_used (p_repo_analysis (analyze so1 f now username user_data repos evs)))
           = length (frameworks_used (p_repo_analysis (analyze so2 f now username user_data repos evs)))
         \<and> length (project_types (p_repo_analysis (analyze so1 f now username user_data repos evs)))
           = length (project_types (p_repo_analysis (analyze so2 f now username user_data repos evs))))"
proof -
  let ?p = "analyze so1 f now username user_data repos evs"
  let ?q = "analyze so2 f now username user_data repos evs"
  have a: "without_set_lists ?p = without_set_lists ?q"
    by (rule without_set_lists_analyze)
  have b: "frameworks_used (p_repo_analysis ?p) = frameworks_used (p_repo_analysis ?q)
       \<and> project_types (p_repo_analysis ?p) = project_types (p_repo_analysis ?q)
       \<longrightarrow> ?p = ?q"
    using profile_eq_by_lists [OF a] by blast
  have c: "enumerates so1 \<and> enumerates so2
       \<longrightarrow> set (frameworks_used (p_repo_analysis ?p)) = set (frameworks_used (p_repo_analysis ?q))
         \<and> set (project_types (p_repo_analysis ?p)) = set (project_types (p_repo_analysis ?q))
         \<and> length (frameworks_used (p_repo_analysis ?p)) = length (frameworks_used (p_repo_analysis ?q))
         \<and> length (project_types (p_repo_analysis ?p)) = length (project_types (p_repo_analysis ?q))"
    using enumerates_same [of so1 so2] by (simp add: analyze_frameworks)
  from a b c show ?thesis by blast
qed

theorem C9_determinism_witness:
  "enumerates sample_order \<and> enumerates sample_reverse_order
   \<and> set (project_types (p_repo_analysis (analyze sample_order sample_parser sample_now ''octocat''
        (sample_user None 1 0) [sample_labelled_repo] [])))
       = set (project_types (p_repo_analysis (analyze sample_reverse_order sample_parser sample_now
        ''octocat'' (sample_user None 1 0) [sample_labelled_repo] [])))
   \<and> without_set_lists (analyze sample_order sample_parser sample_now ''octocat''
        (sample_user None 1 0) [sample_labelled_repo] [])
       = without_set_lists (analyze sample_reverse_order sample_parser sample_now ''octocat''
        (sample_user None 1 0) [sample_labelled_repo] [])"
  using enumerates_sample_order enumerates_sample_reverse_order
    C9_determinism [of sample_order sample_parser sample_now "''octocat''" "sample_user None 1 0"
      "[sample_labelled_repo]" "[]" sample_reverse_order]
  by blast

text \<open>
  Claim C9 as the specification states it includes the order of \<open>project_types\<close>. Under
  two orders in which a set can show its elements, the same input gives
  \<open>[AI/ML, API Development]\<close> and \<open>[API Development, AI/ML]\<close>, and the two profiles
  differ.
\<close>

theorem C9_counterexample:
  "enumerates sample_order \<and> enumerates sample_reverse_order
   \<and> project_types (p_repo_analysis (analyze sample_order sample_parser sample_now ''octocat''
        (sample_user None 1 0) [sample_labelled_repo] []))
       = [''AI/ML'', ''API Development'']
   \<and> project_types (p_repo_analysis (analyze sample_reverse_order sample_parser sample_now ''octocat''
        (sample_user None 1 0) [sample_labelled_repo] []))
       = [''API Development'', ''AI/ML'']
   \<and> analyze sample_order sample_parser sample_now ''octocat''
        (sample_user None 1 0) [sample_labelled_repo] []
       \<noteq> analyze sample_reverse_order sample_parser sample_now ''octocat''
        (sample_user None 1 0) [sample_labelled_repo] []"
proof -
  have o: "sample_order [''AI/ML'', ''API Development''] = [''AI/ML'', ''API Development'']"
          "sample_reverse_order [''AI/ML'', ''API Development''] = [''API Development'', ''AI/ML'']"
    by (simp_all add: sample_order_def sample_reverse_order_def dict_fromkeys_def)
  have a: "project_types (p_repo_analysis (analyze sample_order sample_parser sample_now ''octocat''
        (sample_user None 1 0) [sample_labelled_repo] [])) = [''AI/ML'', ''API Development'']"
    by (simp only: analyze_frameworks labelled_lists o)
  have b: "project_types (p_repo_analysis (analyze sample_reverse_order sample_parser sample_now ''octocat''
        (sample_user None 1 0) [sample_labelled_repo] [])) = [''API Development'', ''AI/ML'']"
    by (simp only: analyze_frameworks labelled_lists o)
  have ne: "[''AI/ML'', ''API Development''] \<noteq> [''API Development'', ''AI/ML'']"
    by simp
  from a b ne have c: "analyze sample_order sample_parser sample_now ''octocat''
        (sample_user None 1 0) [sample_labelled_repo] []
       \<noteq> analyze sample_reverse_order sample_parser sample_now ''octocat''
        (sample_user None 1 0) [sample_labelled_repo] []"
    by metis
  from a b c enumerates_sample_order enumerates_sample_reverse_order show ?thesis by blast
qed

text \<open>
  Claim C10, as amended. For every request, \<open>analyze_github_profile\<close> returns an
  \<open>AnalysisResponse\<close>: either the failure response, with \<open>success = False\<close>, the text of
  the exception in \<open>error\<close> and neither recommendations nor profile, or the success
  response. It is the failure response when the username, after the surrounding white
  space is stripped, is empty, is longer than 39 characters, or holds a character other
  than letters, digits, hyphens and underscores; and when the fetch with analysis or the
  recommendation step raises. A success response means the stripped username passed the
  checks.
\<close>

theorem C10_service_response:
  fixes agents fetch call_agent username agent_name
  defines "r \<equiv> analyze_github_profile agents fetch call_agent username agent_name"
  shows
  "((\<exists>msg. r = failure_response agent_name msg)
     \<or> (\<exists>recs prof. r = \<lparr>success = True, agent = agent_name, recommendations = Some recs,
                          profile = Some prof, error = None\<rparr>))
   \<and> (strip username = [] \<longrightarrow> r = failure_response agent_name username_empty_message)
   \<and> (strip username \<noteq> [] \<and> length (strip username) > 39
        \<longrightarrow> r = failure_response agent_name username_too_long_message)
   \<and> (strip username \<noteq> [] \<and> length (strip username) \<le> 39
        \<and> \<not> list_all username_char_ok (strip username)
        \<longrightarrow> r = failure_response agent_name username_invalid_message)
   \<and> (validate_username username = Inr s \<and> agents agent_name = Some config \<and> config \<noteq> []
        \<and> fetch s = Inl e
        \<longrightarrow> r = failure_response agent_name (str_of_exception e))
   \<and> (validate_username username = Inr s \<and> agents agent_name = Some config \<and> config \<noteq> []
        \<and> fetch s = Inr prof \<and> call_agent config prof = Inl e
        \<longrightarrow> r = failure_response agent_name (str_of_exception e))
   \<and> (analyze_try agents fetch call_agent username agent_name = Inl e
        \<longrightarrow> r = failure_response agent_name (str_of_exception e))
   \<and> (success r \<longrightarrow> validate_username username = Inr (strip username))"
proof -
  have shape: "(\<exists>msg. r = failure_response agent_name msg)
     \<or> (\<exists>recs prof. r = \<lparr>success = True, agent = agent_name, recommendations = Some recs,
                          profile = Some prof, error = None\<rparr>)"
    unfolding r_def by (rule analyze_shape)
  have fail: "analyze_try agents fetch call_agent username agent_name = Inl x
        \<Longrightarrow> r = failure_response agent_name (str_of_exception x)" for x
    unfolding r_def by (rule analyze_failure)
  have c1: "strip username = [] \<longrightarrow> r = failure_response agent_name username_empty_message"
    using fail [of "Exception username_empty_message"]
    by (simp add: analyze_try_def validate_empty)
  have c2: "strip username \<noteq> [] \<and> length (strip username) > 39
        \<longrightarrow> r = failure_response agent_name username_too_long_message"
    using fail [of "Exception username_too_long_message"]
    by (simp add: analyze_try_def validate_long)
  have c3: "strip username \<noteq> [] \<and> length (strip username) \<le> 39
        \<and> \<not> list_all username_char_ok (strip username)
        \<longrightarrow> r = failure_response agent_name username_invalid_message"
    using fail [of "Exception username_invalid_message"]
    by (simp add: analyze_try_def validate_bad_char)
  have c4: "validate_username username = Inr s \<and> agents agent_name = Some config \<and> config \<noteq> []
        \<and> fetch s = Inl e
        \<longrightarrow> r = failure_response agent_name (str_of_exception e)"
    using fail [of e] by (simp add: analyze_try_def Let_def get_or_def)
  have c5: "validate_username username = Inr s \<and> agents agent_name = Some config \<and> config \<noteq> []
        \<and> fetch s = Inr prof \<and> call_agent config prof = Inl e
        \<longrightarrow> r = failure_response agent_name (str_of_exception e)"
    using fail [of e] by (simp add: analyze_try_def Let_def get_or_def)
  have c6: "analyze_try agents fetch call_agent username agent_name = Inl e
        \<longrightarrow> r = failure_response agent_name (str_of_exception e)"
    using fail [of e] by blast
  have c7: "success r \<longrightarrow> validate_username username = Inr (strip username)"
    unfolding r_def using analyze_success_valid by blast
  from shape c1 c2 c3 c4 c5 c6 c7 show ?thesis by blast
qed

theorem C10_service_response_witness:
  "strip ''   '' = []
   \<and> analyze_github_profile sample_agents
        (get_user_profile sample_order sample_parser sample_now sample_missing_web) sample_call_agent
        ''   '' ''hackathon_recommender''
       = failure_response ''hackathon_recommender'' username_empty_message
   \<and> length (strip (replicate 40 (CHR ''a''))) > 39
   \<and> analyze_github_profile sample_agents
        (get_user_profile sample_order sample_parser sample_now sample_missing_web) sample_call_agent
        (replicate 40 (CHR ''a'')) ''hackathon_recommender''
       = failure_response ''hackathon_recommender'' username_too_long_message
   \<and> \<not> list_all username_char_ok (strip ''octo cat'')
   \<and> analyze_github_profile sample_agents
        (get_user_profile sample_order sample_parser sample_now sample_missing_web) sample_call_agent
        ''octo cat'' ''hackathon_recommender''
       = failure_response ''hackathon_recommender'' username_invalid_message
   \<and> get_user_profile sample_order sample_parser sample_now sample_missing_web ''nobody''
       = Inl (Exception (''GitHub user '' @ [CHR 0x27] @ ''nobody'' @ [CHR 0x27]
                         @ '' not found. Please check the username and try again.''))
   \<and> analyze_github_profile sample_agents
        (get_user_profile sample_order sample_parser sample_now sample_missing_web) sample_call_agent
        ''nobody'' ''hackathon_recommender''
       = failure_response ''hackathon_recommender''
           (''GitHub user '' @ [CHR 0x27] @ ''nobody'' @ [CHR 0x27]
            @ '' not found. Please check the username and try again.'')
   \<and> analyze_github_profile sample_agents
        (get_user_profile sample_order sample_parser sample_now (sample_web (sample_user None 0 0) [] []))
        sample_failing_agent ''octocat'' ''hackathon_recommender''
       = failure_response ''hackathon_recommender''
           ''AI service is not configured. Please check your Gemini API key configuration.''"
proof -
  let ?F = "get_user_profile sample_order sample_parser sample_now sample_missing_web"
  let ?G = "get_user_profile sample_order sample_parser sample_now (sample_web (sample_user None 0 0) [] [])"
  let ?cfg = "[(''name'', ''Hackathon Project Recommender'')]"
  let ?msg = "''GitHub user '' @ [CHR 0x27] @ ''nobody'' @ [CHR 0x27]
               @ '' not found. Please check the username and try again.''"
  let ?p = "analyze sample_order sample_parser sample_now ''octocat'' (sample_user None 0 0) [] []"
  have h1: "strip ''   '' = []"
    by code_simp
  have h2: "strip (replicate 40 (CHR ''a'')) \<noteq> [] \<and> length (strip (replicate 40 (CHR ''a''))) > 39"
    by code_simp
  have h3: "strip ''octo cat'' \<noteq> [] \<and> length (strip ''octo cat'') \<le> 39
            \<and> \<not> list_all username_char_ok (strip ''octo cat'')"
    by code_simp
  have v4: "validate_username ''nobody'' = Inr ''nobody''"
    by code_simp
  have v5: "validate_username ''octocat'' = Inr ''octocat''"
    by code_simp
  have a: "sample_agents ''hackathon_recommender'' = Some ?cfg \<and> ?cfg \<noteq> []"
    by (simp add: sample_agents_def)
  have f4: "?F ''nobody'' = Inl (Exception ?msg)"
    by (simp add: get_user_profile_def sample_missing_web_def)
  have f5: "?G ''octocat'' = Inr ?p"
    by (simp add: get_user_profile_def sample_web_def Let_def)
  have c5: "sample_failing_agent ?cfg ?p =
              Inl (Exception ''AI service is not configured. Please check your Gemini API key configuration.'')"
    by (simp add: sample_failing_agent_def)
  from h1 C10_service_response [of sample_agents ?F sample_call_agent "''   ''" "''hackathon_recommender''"]
  have w1: "analyze_github_profile sample_agents ?F sample_call_agent ''   '' ''hackathon_recommender''
       = failure_response ''hackathon_recommender'' username_empty_message"
    by blast
  from h2 C10_service_response [of sample_agents ?F sample_call_agent "replicate 40 (CHR ''a'')"
      "''hackathon_recommender''"]
  have w2: "analyze_github_profile sample_agents ?F sample_call_agent (replicate 40 (CHR ''a''))
              ''hackathon_recommender''
       = failure_response ''hackathon_recommender'' username_too_long_message"
    by blast
  from h3 C10_service_response [of sample_agents ?F sample_call_agent "''octo cat''"
      "''hackathon_recommender''"]
  have w3: "analyze_github_profile sample_agents ?F sample_call_agent ''octo cat''
              ''hackathon_recommender''
       = failure_response ''hackathon_recommender'' username_invalid_message"
    by blast
  from v4 a f4 C10_service_response [of sample_agents ?F sample_call_agent "''nobody''"
      "''hackathon_recommender''" "''nobody''" ?cfg "Exception ?msg"]
  have "analyze_github_profile sample_agents ?F sample_call_agent ''nobody''
              ''hackathon_recommender''
       = failure_response ''hackathon_recommender'' (str_of_exception (Exception ?msg))"
    by blast
  then have w4: "analyze_github_profile sample_agents ?F sample_call_agent ''nobody''
              ''hackathon_recommender''
       = failure_response ''hackathon_recommender'' ?msg"
    by (simp only: str_of_exception.simps)
  from v5 a f5 c5 C10_service_response [of sample_agents ?G sample_failing_agent "''octocat''"
      "''hackathon_recommender''" "''octocat''" ?cfg
      "Exception ''AI service is not configured. Please check your Gemini API key configuration.''" ?p]
  have "analyze_github_profile sample_agents ?G sample_failing_agent ''octocat''
              ''hackathon_recommender''
       = failure_response ''hackathon_recommender''
           (str_of_exception (Exception
              ''AI service is not configured. Please check your Gemini API key configuration.''))"
    by blast
  then have w5: "analyze_github_profile sample_agents ?G sample_failing_agent ''octocat''
              ''hackathon_recommender''
       = failure_response ''hackathon_recommender''
           ''AI service is not configured. Please check your Gemini API key configuration.''"
    by (simp only: str_of_exception.simps)
  from h1 h2 h3 f4 w1 w2 w3 w4 w5 show ?thesis by blast
qed

text \<open>
  Claim C10 as the specification states it tests the username as received. A username
  of 40 characters that ends in spaces is longer than 39 characters and holds characters
  other than letters, digits, hyphens and underscores, and the response is a success:
  the source strips the username before it tests it.
\<close>

theorem C10_counterexample:
  "length sample_padded_username > 39
   \<and> \<not> list_all username_char_ok sample_padded_username
   \<and> success (analyze_github_profile sample_agents
        (get_user_profile sample_order sample_parser sample_now (sample_web (sample_user None 0 0) [] []))
        sample_call_agent sample_padded_username ''hackathon_recommender'')"
  by (simp add: padded_len padded_bad analyze_github_profile_def analyze_try_def valid_octocat
        sample_agents_def get_or_def Let_def sample_call_agent_def
        get_user_profile_ok [of _ _ "sample_user None 0 0" 200 "[]" 200 "[]"] sample_web_def)

end
